theory Spec2Isabelle
  imports Complex_Main "HOL-Library.AList"
begin

section \<open>Geometric primitives (lanfinitas\_types/common.py)\<close>

text \<open>
  Coordinates and measurements are Python floats. Where a function only compares, selects
  or stores them, or where a statement is an equation between the very expressions the
  code evaluates, they are modelled as real numbers. The IoU of two boxes multiplies, adds,
  subtracts and divides, so there overflow and rounding matter, and the boxes are modelled
  a second time over floating-point values further down.
\<close>

datatype error = ValueError | KeyError | AttributeError | TypeError | ZeroDivisionError
  | ValidationError

text \<open>Python's true division \<^verbatim>\<open>a / b\<close> on floats raises on a zero divisor.\<close>

definition truediv :: "real \<Rightarrow> real \<Rightarrow> error + real" where
  "truediv a b = (if b = 0 then Inl ZeroDivisionError else Inr (a / b))"

record Point2D =
  x :: real
  y :: real

record BoundingBox2D =
  min_point :: Point2D
  max_point :: Point2D

definition width :: "BoundingBox2D \<Rightarrow> real" where
  "width self = x (max_point self) - x (min_point self)"

definition height :: "BoundingBox2D \<Rightarrow> real" where
  "height self = y (max_point self) - y (min_point self)"

definition area :: "BoundingBox2D \<Rightarrow> real" where
  "area self = width self * height self"

definition intersects :: "BoundingBox2D \<Rightarrow> BoundingBox2D \<Rightarrow> bool" where
  "intersects self other =
     (\<not> (x (max_point self) < x (min_point other)
         \<or> x (min_point self) > x (max_point other)
         \<or> y (max_point self) < y (min_point other)
         \<or> y (min_point self) > y (max_point other)))"

definition intersection :: "BoundingBox2D \<Rightarrow> BoundingBox2D \<Rightarrow> BoundingBox2D option" where
  "intersection self other =
     (if \<not> intersects self other then None
      else
        let min_x = max (x (min_point self)) (x (min_point other));
            min_y = max (y (min_point self)) (y (min_point other));
            max_x = min (x (max_point self)) (x (max_point other));
            max_y = min (y (max_point self)) (y (max_point other))
        in Some \<lparr>min_point = \<lparr>x = min_x, y = min_y\<rparr>,
                 max_point = \<lparr>x = max_x, y = max_y\<rparr>\<rparr>)"

text \<open>The precondition of the bounding-box claims: the minimum corner is componentwise
  below the maximum corner.\<close>

definition well_formed :: "BoundingBox2D \<Rightarrow> bool" where
  "well_formed b = (x (min_point b) \<le> x (max_point b) \<and> y (min_point b) \<le> y (max_point b))"

definition box :: "real \<Rightarrow> real \<Rightarrow> real \<Rightarrow> real \<Rightarrow> BoundingBox2D" where
  "box x0 y0 x1 y1 = \<lparr>min_point = \<lparr>x = x0, y = y0\<rparr>, max_point = \<lparr>x = x1, y = y1\<rparr>\<rparr>"

section \<open>Floating-point values\<close>

text \<open>
  A Python float is an IEEE 754 binary64 value: a finite number, an infinity or NaN. The
  two signed zeros compare equal and are one value here. The result of an arithmetic
  operation on finite values is the exact result rounded to the format, and an infinity
  when the rounded result lies beyond the largest finite value. The format is a parameter
  of the operations: its rounding function and its largest finite value.
\<close>

datatype pyfloat = Finite real | PosInf | NegInf | NaN

record format =
  rnd :: "real \<Rightarrow> real"
  fmax :: real

definition fround :: "format \<Rightarrow> real \<Rightarrow> pyfloat" where
  "fround fmt v =
     (let q = rnd fmt v in
      if fmax fmt < q then PosInf
      else if q < - fmax fmt then NegInf
      else Finite q)"

fun fneg :: "pyfloat \<Rightarrow> pyfloat" where
  "fneg (Finite p) = Finite (- p)"
| "fneg PosInf = NegInf"
| "fneg NegInf = PosInf"
| "fneg NaN = NaN"

fun fadd :: "format \<Rightarrow> pyfloat \<Rightarrow> pyfloat \<Rightarrow> pyfloat" where
  "fadd fmt (Finite p) (Finite q) = fround fmt (p + q)"
| "fadd fmt NaN v = NaN"
| "fadd fmt u NaN = NaN"
| "fadd fmt PosInf NegInf = NaN"
| "fadd fmt NegInf PosInf = NaN"
| "fadd fmt PosInf v = PosInf"
| "fadd fmt u PosInf = PosInf"
| "fadd fmt NegInf v = NegInf"
| "fadd fmt u NegInf = NegInf"

definition fsub :: "format \<Rightarrow> pyfloat \<Rightarrow> pyfloat \<Rightarrow> pyfloat" where
  "fsub fmt u v = fadd fmt u (fneg v)"

text \<open>The sign of an infinite product or quotient: positive for equal signs.\<close>

definition signed_inf :: "bool \<Rightarrow> pyfloat" where
  "signed_inf positive = (if positive then PosInf else NegInf)"

fun fmul :: "format \<Rightarrow> pyfloat \<Rightarrow> pyfloat \<Rightarrow> pyfloat" where
  "fmul fmt (Finite p) (Finite q) = fround fmt (p * q)"
| "fmul fmt NaN v = NaN"
| "fmul fmt u NaN = NaN"
| "fmul fmt (Finite p) v = (if p = 0 then NaN else signed_inf ((0 < p) = (v = PosInf)))"
| "fmul fmt u (Finite q) = (if q = 0 then NaN else signed_inf ((u = PosInf) = (0 < q)))"
| "fmul fmt u v = signed_inf (u = v)"

text \<open>IEEE division by a nonzero value.\<close>

fun ieee_div :: "format \<Rightarrow> pyfloat \<Rightarrow> pyfloat \<Rightarrow> pyfloat" where
  "ieee_div fmt (Finite p) (Finite q) = fround fmt (p / q)"
| "ieee_div fmt NaN v = NaN"
| "ieee_div fmt u NaN = NaN"
| "ieee_div fmt (Finite p) v = Finite 0"
| "ieee_div fmt u (Finite q) = signed_inf ((u = PosInf) = (0 < q))"
| "ieee_div fmt u v = NaN"

text \<open>Python's \<^verbatim>\<open>u / v\<close> on floats: a zero divisor raises, whatever the dividend.\<close>

definition fdiv :: "format \<Rightarrow> pyfloat \<Rightarrow> pyfloat \<Rightarrow> error + pyfloat" where
  "fdiv fmt u v = (if v = Finite 0 then Inl ZeroDivisionError else Inr (ieee_div fmt u v))"

text \<open>Comparisons: every comparison with NaN is false.\<close>

fun flt :: "pyfloat \<Rightarrow> pyfloat \<Rightarrow> bool" where
  "flt (Finite p) (Finite q) = (p < q)"
| "flt NaN v = False"
| "flt u NaN = False"
| "flt u NegInf = False"
| "flt PosInf v = False"
| "flt u v = True"

definition fgt :: "pyfloat \<Rightarrow> pyfloat \<Rightarrow> bool" where
  "fgt u v = flt v u"

definition feq :: "pyfloat \<Rightarrow> pyfloat \<Rightarrow> bool" where
  "feq u v = (u = v \<and> u \<noteq> NaN)"

definition fle :: "pyfloat \<Rightarrow> pyfloat \<Rightarrow> bool" where
  "fle u v = (flt u v \<or> feq u v)"

text \<open>The built-in \<^verbatim>\<open>max(u, v)\<close> and \<^verbatim>\<open>min(u, v)\<close> keep the first argument unless the
  second is greater, respectively less.\<close>

definition py_max :: "pyfloat \<Rightarrow> pyfloat \<Rightarrow> pyfloat" where
  "py_max u v = (if fgt v u then v else u)"

definition py_min :: "pyfloat \<Rightarrow> pyfloat \<Rightarrow> pyfloat" where
  "py_min u v = (if flt v u then v else u)"

subsection \<open>The binary64 format\<close>

text \<open>Round to nearest, ties to even, with 53 significant bits and the smallest exponent
  \<open>-1022\<close>; the largest finite value is \<open>(2^53 - 1) * 2^971\<close>.\<close>

definition round_half_even :: "real \<Rightarrow> int" where
  "round_half_even q =
     (let fl = \<lfloor>q\<rfloor>; d = q - of_int fl in
      if d < 1 / 2 then fl
      else if 1 / 2 < d then fl + 1
      else if even fl then fl else fl + 1)"

definition binary64_rnd :: "real \<Rightarrow> real" where
  "binary64_rnd v =
     (if v = 0 then 0
      else
        let e = max \<lfloor>log 2 \<bar>v\<bar>\<rfloor> (- 1022);
            u = 2 powi (e - 52)
        in u * of_int (round_half_even (v / u)))"

definition binary64 :: format where
  "binary64 = \<lparr>rnd = binary64_rnd, fmax = (2 ^ 53 - 1) * 2 ^ 971\<rparr>"

section \<open>Bounding boxes over floating-point values\<close>

text \<open>\<^verbatim>\<open>Point2D\<close> and \<^verbatim>\<open>BoundingBox2D\<close> of lanfinitas\_types/common.py again, with float
  coordinates and float arithmetic.\<close>

record Point2D_f =
  x_f :: pyfloat
  y_f :: pyfloat

record BoundingBox2D_f =
  min_point_f :: Point2D_f
  max_point_f :: Point2D_f

definition width_f :: "format \<Rightarrow> BoundingBox2D_f \<Rightarrow> pyfloat" where
  "width_f fmt self = fsub fmt (x_f (max_point_f self)) (x_f (min_point_f self))"

definition height_f :: "format \<Rightarrow> BoundingBox2D_f \<Rightarrow> pyfloat" where
  "height_f fmt self = fsub fmt (y_f (max_point_f self)) (y_f (min_point_f self))"

definition area_f :: "format \<Rightarrow> BoundingBox2D_f \<Rightarrow> pyfloat" where
  "area_f fmt self = fmul fmt (width_f fmt self) (height_f fmt self)"

definition intersects_f :: "BoundingBox2D_f \<Rightarrow> BoundingBox2D_f \<Rightarrow> bool" where
  "intersects_f self other =
     (\<not> (flt (x_f (max_point_f self)) (x_f (min_point_f other))
         \<or> fgt (x_f (min_point_f self)) (x_f (max_point_f other))
         \<or> flt (y_f (max_point_f self)) (y_f (min_point_f other))
         \<or> fgt (y_f (min_point_f self)) (y_f (max_point_f other))))"

definition intersection_f :: "BoundingBox2D_f \<Rightarrow> BoundingBox2D_f \<Rightarrow> BoundingBox2D_f option" where
  "intersection_f self other =
     (if \<not> intersects_f self other then None
      else
        let min_x = py_max (x_f (min_point_f self)) (x_f (min_point_f other));
            min_y = py_max (y_f (min_point_f self)) (y_f (min_point_f other));
            max_x = py_min (x_f (max_point_f self)) (x_f (max_point_f other));
            max_y = py_min (y_f (max_point_f self)) (y_f (max_point_f other))
        in Some \<lparr>min_point_f = \<lparr>x_f = min_x, y_f = min_y\<rparr>,
                 max_point_f = \<lparr>x_f = max_x, y_f = max_y\<rparr>\<rparr>)"

definition iou :: "format \<Rightarrow> BoundingBox2D_f \<Rightarrow> BoundingBox2D_f \<Rightarrow> error + pyfloat" where
  "iou fmt self other =
     (case intersection_f self other of
        None \<Rightarrow> Inr (Finite 0)
      | Some intersection_box \<Rightarrow>
          let intersection_area = area_f fmt intersection_box;
              union_area = fsub fmt (fadd fmt (area_f fmt self) (area_f fmt other))
                             intersection_area
          in if feq union_area (Finite 0) then Inr (Finite 0)
             else fdiv fmt intersection_area union_area)"

text \<open>The precondition of the IoU claim on float boxes: the minimum corner is componentwise
  less than or equal to the maximum corner.\<close>

definition well_formed_f :: "BoundingBox2D_f \<Rightarrow> bool" where
  "well_formed_f bx =
     (fle (x_f (min_point_f bx)) (x_f (max_point_f bx))
      \<and> fle (y_f (min_point_f bx)) (y_f (max_point_f bx)))"

definition box_f :: "real \<Rightarrow> real \<Rightarrow> real \<Rightarrow> real \<Rightarrow> BoundingBox2D_f" where
  "box_f x0 y0 x1 y1 =
     \<lparr>min_point_f = \<lparr>x_f = Finite x0, y_f = Finite y0\<rparr>,
      max_point_f = \<lparr>x_f = Finite x1, y_f = Finite y1\<rparr>\<rparr>"

text \<open>What is used of a format below, all of it true of round-to-nearest in binary64:
  rounding is monotone, leaves 0, 1 and every rounded value as they are, doubling a rounded
  value is exact, and 1 is finite.\<close>

definition rounds_to_nearest :: "format \<Rightarrow> bool" where
  "rounds_to_nearest fmt =
     ((\<forall>u v. u \<le> v \<longrightarrow> rnd fmt u \<le> rnd fmt v)
      \<and> rnd fmt 0 = 0 \<and> rnd fmt 1 = 1
      \<and> (\<forall>v. rnd fmt (rnd fmt v) = rnd fmt v)
      \<and> (\<forall>v. rnd fmt (2 * rnd fmt v) = 2 * rnd fmt v)
      \<and> 1 \<le> fmax fmt)"

text \<open>A box with finite coordinates whose area is beyond the largest finite value.\<close>

definition huge :: real where
  "huge = 2 ^ 700"

definition huge_box :: BoundingBox2D_f where
  "huge_box = box_f 0 0 huge huge"

section \<open>Colors (lanfinitas\_types/common.py)\<close>

record Color =
  r :: real
  g :: real
  b :: real
  a :: real

text \<open>\<^verbatim>\<open>Color.__post_init__\<close>: the loop over the four channels raises at the first
  channel outside \<open>[0, 1]\<close>.\<close>

fun check_channels :: "real list \<Rightarrow> error + unit" where
  "check_channels [] = Inr ()"
| "check_channels (v # vs) =
     (if \<not> (0 \<le> v \<and> v \<le> 1) then Inl ValueError else check_channels vs)"

definition post_init :: "Color \<Rightarrow> error + Color" where
  "post_init self =
     (case check_channels [r self, g self, b self, a self] of
        Inl e \<Rightarrow> Inl e
      | Inr _ \<Rightarrow> Inr self)"

text \<open>The dataclass constructor \<^verbatim>\<open>cls(r=..., g=..., b=..., a=...)\<close>: the generated
  \<^verbatim>\<open>__init__\<close> stores the fields and calls \<^verbatim>\<open>__post_init__\<close>.\<close>

definition Color_init :: "real \<Rightarrow> real \<Rightarrow> real \<Rightarrow> real \<Rightarrow> error + Color" where
  "Color_init rv gv bv av = post_init \<lparr>r = rv, g = gv, b = bv, a = av\<rparr>"

subsection \<open>The built-in \<^verbatim>\<open>int(s, 16)\<close>\<close>

text \<open>
  Python's \<^verbatim>\<open>int(s, 16)\<close> on a string, as CPython's \<^verbatim>\<open>PyLong_FromString\<close> reads it:
  surrounding whitespace (tab, line feed, vertical tab, form feed, carriage return, space,
  and the Latin-1 next-line and no-break space) is skipped, then one optional sign, then an optional
  \<^verbatim>\<open>0x\<close>/\<^verbatim>\<open>0X\<close> prefix (which may be followed by one underscore), then at least one
  hexadecimal digit, with single underscores allowed between digits. Anything else is a
  ValueError. Characters are the code points below 256.
\<close>

definition is_space :: "char \<Rightarrow> bool" where
  "is_space c = ((of_char c :: nat) \<in> {9, 10, 11, 12, 13, 32, 133, 160})"

definition digit_value :: "char \<Rightarrow> nat option" where
  "digit_value c =
     (let n = (of_char c :: nat) in
      if 48 \<le> n \<and> n \<le> 57 then Some (n - 48)
      else if 97 \<le> n \<and> n \<le> 102 then Some (n - 87)
      else if 65 \<le> n \<and> n \<le> 70 then Some (n - 55)
      else None)"

fun scan_digits :: "bool \<Rightarrow> nat \<Rightarrow> nat \<Rightarrow> string \<Rightarrow> error + (nat \<times> nat \<times> string)" where
  "scan_digits prev_us acc ndigits [] =
     (if prev_us then Inl ValueError else Inr (acc, ndigits, []))"
| "scan_digits prev_us acc ndigits (c # cs) =
     (if c = CHR ''_'' then
        (if prev_us then Inl ValueError else scan_digits True acc ndigits cs)
      else
        (case digit_value c of
           Some d \<Rightarrow> scan_digits False (16 * acc + d) (Suc ndigits) cs
         | None \<Rightarrow> if prev_us then Inl ValueError else Inr (acc, ndigits, c # cs)))"

definition skip_sign :: "string \<Rightarrow> int \<times> string" where
  "skip_sign s =
     (case s of
        [] \<Rightarrow> (1, s)
      | c # cs \<Rightarrow> if c = CHR ''+'' then (1, cs) else if c = CHR ''-'' then (- 1, cs) else (1, s))"

definition skip_prefix :: "string \<Rightarrow> string" where
  "skip_prefix s =
     (case s of
        c0 # c1 # cs \<Rightarrow>
          if c0 = CHR ''0'' \<and> (c1 = CHR ''x'' \<or> c1 = CHR ''X'')
          then (case cs of [] \<Rightarrow> cs | c2 # cs' \<Rightarrow> if c2 = CHR ''_'' then cs' else cs)
          else s
      | _ \<Rightarrow> s)"

definition int16 :: "string \<Rightarrow> error + int" where
  "int16 s =
     (let (sign, s1) = skip_sign (dropWhile is_space s);
          s2 = skip_prefix s1
      in if s2 \<noteq> [] \<and> hd s2 = CHR ''_'' then Inl ValueError
         else
           (case scan_digits False 0 0 s2 of
              Inl e \<Rightarrow> Inl e
            | Inr (v, ndigits, rest) \<Rightarrow>
                if ndigits = 0 then Inl ValueError
                else if dropWhile is_space rest \<noteq> [] then Inl ValueError
                else Inr (sign * int v)))"

subsection \<open>\<^verbatim>\<open>Color.from_hex\<close>\<close>

definition bindE :: "error + 'a \<Rightarrow> ('a \<Rightarrow> error + 'b) \<Rightarrow> error + 'b" where
  "bindE m f = (case m of Inl e \<Rightarrow> Inl e | Inr v \<Rightarrow> f v)"

text \<open>\<^verbatim>\<open>s[i:j]\<close> for \<open>0 \<le> i \<le> j\<close>.\<close>

definition slice :: "string \<Rightarrow> nat \<Rightarrow> nat \<Rightarrow> string" where
  "slice s i j = take (j - i) (drop i s)"

text \<open>\<^verbatim>\<open>s.lstrip("#")\<close>\<close>

definition lstrip_hash :: "string \<Rightarrow> string" where
  "lstrip_hash s = dropWhile (\<lambda>c. c = CHR ''#'') s"

definition from_hex :: "string \<Rightarrow> error + Color" where
  "from_hex hex_string0 =
     (let hex_string = lstrip_hash hex_string0 in
      if length hex_string = 3 then
        bindE (int16 (replicate 2 (hex_string ! 0))) (\<lambda>ri.
        bindE (int16 (replicate 2 (hex_string ! 1))) (\<lambda>gi.
        bindE (int16 (replicate 2 (hex_string ! 2))) (\<lambda>bi.
        Color_init (real_of_int ri / 255) (real_of_int gi / 255) (real_of_int bi / 255) 1)))
      else if length hex_string = 6 then
        bindE (int16 (slice hex_string 0 2)) (\<lambda>ri.
        bindE (int16 (slice hex_string 2 4)) (\<lambda>gi.
        bindE (int16 (slice hex_string 4 6)) (\<lambda>bi.
        Color_init (real_of_int ri / 255) (real_of_int gi / 255) (real_of_int bi / 255) 1)))
      else if length hex_string = 8 then
        bindE (int16 (slice hex_string 0 2)) (\<lambda>ri.
        bindE (int16 (slice hex_string 2 4)) (\<lambda>gi.
        bindE (int16 (slice hex_string 4 6)) (\<lambda>bi.
        bindE (int16 (slice hex_string 6 8)) (\<lambda>ai.
        Color_init (real_of_int ri / 255) (real_of_int gi / 255) (real_of_int bi / 255)
          (real_of_int ai / 255)))))
      else Inl ValueError)"

text \<open>The validity condition in the words of the specification: the string left after the
  leading \<^verbatim>\<open>#\<close> characters has length 3, 6 or 8 and consists of hexadecimal digits.\<close>

definition is_hex_digit :: "char \<Rightarrow> bool" where
  "is_hex_digit c = (c \<in> set ''0123456789abcdefABCDEF'')"

definition spec_valid_hex :: "string \<Rightarrow> bool" where
  "spec_valid_hex s =
     (length (lstrip_hash s) \<in> {3, 6, 8} \<and> list_all is_hex_digit (lstrip_hash s))"

section \<open>Pattern pieces (lanfinitas\_types/data\_models.py)\<close>

text \<open>Of \<^verbatim>\<open>PatternPiece\<close> the identity fields, the outline and the cutting metadata are
  kept; \<^verbatim>\<open>get_area\<close> reads the outline only. The points of the outline have the same two
  coordinates as \<^typ>\<open>Point2D\<close> above.\<close>

record PatternPiece =
  piece_id :: string
  label :: string
  outline :: "Point2D list"
  mirror :: bool
  quantity :: int

definition to_tuple :: "Point2D \<Rightarrow> real \<times> real" where
  "to_tuple self = (x self, y self)"

definition get_area :: "PatternPiece \<Rightarrow> real" where
  "get_area self =
     (if length (outline self) < 3 then 0
      else
        let points = map to_tuple (outline self);
            xs = map fst points;
            ys = map snd points
        in 0.5 * \<bar>\<Sum>i \<leftarrow> [0 ..< length points - 1]. xs ! i * ys ! (i + 1) - xs ! (i + 1) * ys ! i\<bar>)"

text \<open>The shoelace formula in the words of the specification: half the absolute value of
  the cross-product sum over all edges of the polygon, the closing edge from the last
  vertex back to the first included.\<close>

definition shoelace_area :: "Point2D list \<Rightarrow> real" where
  "shoelace_area ps =
     (let n = length ps in
      \<bar>\<Sum>i \<leftarrow> [0 ..< n]. x (ps ! i) * y (ps ! ((i + 1) mod n))
                          - x (ps ! ((i + 1) mod n)) * y (ps ! i)\<bar> / 2)"

definition piece_of :: "Point2D list \<Rightarrow> PatternPiece" where
  "piece_of ps = \<lparr>piece_id = ''p'', label = ''piece'', outline = ps, mirror = False, quantity = 1\<rparr>"

definition pt :: "real \<Rightarrow> real \<Rightarrow> Point2D" where
  "pt px py = \<lparr>x = px, y = py\<rparr>"

section \<open>Measurements (lanfinitas\_types/data\_models.py)\<close>

datatype MeasurementUnit = CENTIMETERS | INCHES | MILLIMETERS | METERS

datatype Gender = MALE | FEMALE | UNISEX | KIDS_BOYS | KIDS_GIRLS

datatype SizeCategory =
    XXS | XS | S | M | L | XL | XXL | XXXL
  | PLUS_1X | PLUS_2X | PLUS_3X | PLUS_4X | PLUS_5X
  | SIZE_0 | SIZE_2 | SIZE_4 | SIZE_6 | SIZE_8 | SIZE_10 | SIZE_12 | SIZE_14 | SIZE_16
  | SIZE_18 | SIZE_20
  | CUSTOM

record Measurement =
  chest :: "real option"
  waist :: "real option"
  hip :: "real option"
  shoulder_width :: "real option"
  sleeve_length :: "real option"
  body_length :: "real option"
  inseam :: "real option"
  neck :: "real option"
  bust :: "real option"
  under_bust :: "real option"
  arm_length :: "real option"
  bicep :: "real option"
  wrist :: "real option"
  thigh :: "real option"
  calf :: "real option"
  ankle :: "real option"
  unit :: MeasurementUnit
  gender :: "Gender option"
  size_category :: "SizeCategory option"
  custom :: "(string \<times> real) list"

text \<open>What \<^verbatim>\<open>getattr\<close> can return on a measurement: a number, None, an enum member or the
  dictionary of custom measurements.\<close>

datatype field_value =
    FNum real
  | FNone
  | FUnit MeasurementUnit
  | FGender "Gender option"
  | FSize "SizeCategory option"
  | FDict "(string \<times> real) list"

definition opt_num :: "real option \<Rightarrow> field_value" where
  "opt_num v = (case v of None \<Rightarrow> FNone | Some n \<Rightarrow> FNum n)"

text \<open>\<^verbatim>\<open>model_fields\<close> in declaration order, each name with \<^verbatim>\<open>getattr(self, field_name)\<close>.\<close>

definition model_fields :: "Measurement \<Rightarrow> (string \<times> field_value) list" where
  "model_fields self =
     [(''chest'', opt_num (chest self)),
      (''waist'', opt_num (waist self)),
      (''hip'', opt_num (hip self)),
      (''shoulder_width'', opt_num (shoulder_width self)),
      (''sleeve_length'', opt_num (sleeve_length self)),
      (''body_length'', opt_num (body_length self)),
      (''inseam'', opt_num (inseam self)),
      (''neck'', opt_num (neck self)),
      (''bust'', opt_num (bust self)),
      (''under_bust'', opt_num (under_bust self)),
      (''arm_length'', opt_num (arm_length self)),
      (''bicep'', opt_num (bicep self)),
      (''wrist'', opt_num (wrist self)),
      (''thigh'', opt_num (thigh self)),
      (''calf'', opt_num (calf self)),
      (''ankle'', opt_num (ankle self)),
      (''unit'', FUnit (unit self)),
      (''gender'', FGender (gender self)),
      (''size_category'', FSize (size_category self)),
      (''custom'', FDict (custom self))]"

text \<open>\<^verbatim>\<open>setattr(converted, field_name, number)\<close>; only the sixteen optional float fields ever
  hold a number, so only they are ever assigned one.\<close>

definition setattr_num :: "Measurement \<Rightarrow> string \<Rightarrow> real \<Rightarrow> Measurement" where
  "setattr_num m field_name v =
     (if field_name = ''chest'' then m\<lparr>chest := Some v\<rparr>
      else if field_name = ''waist'' then m\<lparr>waist := Some v\<rparr>
      else if field_name = ''hip'' then m\<lparr>hip := Some v\<rparr>
      else if field_name = ''shoulder_width'' then m\<lparr>shoulder_width := Some v\<rparr>
      else if field_name = ''sleeve_length'' then m\<lparr>sleeve_length := Some v\<rparr>
      else if field_name = ''body_length'' then m\<lparr>body_length := Some v\<rparr>
      else if field_name = ''inseam'' then m\<lparr>inseam := Some v\<rparr>
      else if field_name = ''neck'' then m\<lparr>neck := Some v\<rparr>
      else if field_name = ''bust'' then m\<lparr>bust := Some v\<rparr>
      else if field_name = ''under_bust'' then m\<lparr>under_bust := Some v\<rparr>
      else if field_name = ''arm_length'' then m\<lparr>arm_length := Some v\<rparr>
      else if field_name = ''bicep'' then m\<lparr>bicep := Some v\<rparr>
      else if field_name = ''wrist'' then m\<lparr>wrist := Some v\<rparr>
      else if field_name = ''thigh'' then m\<lparr>thigh := Some v\<rparr>
      else if field_name = ''calf'' then m\<lparr>calf := Some v\<rparr>
      else if field_name = ''ankle'' then m\<lparr>ankle := Some v\<rparr>
      else m)"

text \<open>The table of conversion factors to centimeters; every unit has an entry.\<close>

fun to_cm :: "MeasurementUnit \<Rightarrow> real" where
  "to_cm CENTIMETERS = 1.0"
| "to_cm MILLIMETERS = 0.1"
| "to_cm METERS = 100.0"
| "to_cm INCHES = 2.54"

text \<open>The loop body: a field whose value is a number (\<^verbatim>\<open>isinstance(value, (int, float))\<close>) is
  overwritten in the copy by the value times the factor; other fields are skipped.\<close>

fun convert_fields :: "real \<Rightarrow> (string \<times> field_value) list \<Rightarrow> Measurement \<Rightarrow> Measurement" where
  "convert_fields factor [] converted = converted"
| "convert_fields factor ((field_name, val) # rest) converted =
     (case val of
        FNum v \<Rightarrow> convert_fields factor rest (setattr_num converted field_name (v * factor))
      | _ \<Rightarrow> convert_fields factor rest converted)"

definition convert_to :: "Measurement \<Rightarrow> MeasurementUnit \<Rightarrow> Measurement" where
  "convert_to self target_unit =
     (if unit self = target_unit then self
      else
        let factor = to_cm (unit self) / to_cm target_unit;
            converted = convert_fields factor (model_fields self) self
        in converted\<lparr>custom := map (\<lambda>(k, v). (k, v * factor)) (custom self),
                     unit := target_unit\<rparr>)"

section \<open>Layout results (lanfinitas\_types/data\_models.py)\<close>

text \<open>
  \<^verbatim>\<open>LayoutResult\<close> is a pydantic model. Constructing it validates the keyword arguments
  field by field in declaration order: a required field that is missing, or a value that
  breaks the field's bounds, is an error; a value that passes is handed to the field's
  validator functions together with \<^verbatim>\<open>values\<close>, the fields validated so far, and the result
  is stored. Construction succeeds when no field reported an error. The numeric fields are
  modelled; whether the remaining fields (identifier, pattern, fabric, placed pieces,
  strategy, objective, timestamp) validate is the parameter \<open>others_valid\<close>.
\<close>

record LayoutResult =
  fabric_length_used :: real
  utilization_rate :: real
  waste_percentage :: real
  total_area_used :: real
  total_area_available :: real
  computation_time :: real

definition calculate_waste :: "real \<Rightarrow> (string \<rightharpoonup> real) \<Rightarrow> real" where
  "calculate_waste v values =
     (case values ''utilization_rate'' of
        Some u \<Rightarrow> (1 - u) * 100
      | None \<Rightarrow> v)"

text \<open>The numeric fields in declaration order with their bounds.\<close>

definition numeric_fields :: "(string \<times> (real \<Rightarrow> bool)) list" where
  "numeric_fields =
     [(''fabric_length_used'', \<lambda>v. 0 < v),
      (''utilization_rate'', \<lambda>v. 0 \<le> v \<and> v \<le> 1),
      (''waste_percentage'', \<lambda>v. 0 \<le> v \<and> v \<le> 100),
      (''total_area_used'', \<lambda>v. 0 < v),
      (''total_area_available'', \<lambda>v. 0 < v),
      (''computation_time'', \<lambda>v. 0 \<le> v)]"

text \<open>The validator functions of a field: only \<^verbatim>\<open>waste_percentage\<close> has one.\<close>

definition run_validators :: "string \<Rightarrow> real \<Rightarrow> (string \<rightharpoonup> real) \<Rightarrow> real" where
  "run_validators field_name v values =
     (if field_name = ''waste_percentage'' then calculate_waste v values else v)"

fun validate_fields ::
  "(string \<times> (real \<Rightarrow> bool)) list \<Rightarrow> (string \<rightharpoonup> real) \<Rightarrow> (string \<rightharpoonup> real) \<Rightarrow> bool
     \<Rightarrow> (string \<rightharpoonup> real) \<times> bool" where
  "validate_fields [] kwargs values failed = (values, failed)"
| "validate_fields ((field_name, in_bounds) # rest) kwargs values failed =
     (case kwargs field_name of
        None \<Rightarrow> validate_fields rest kwargs values True
      | Some v \<Rightarrow>
          if in_bounds v
          then validate_fields rest kwargs
                 (values(field_name \<mapsto> run_validators field_name v values)) failed
          else validate_fields rest kwargs values True)"

definition LayoutResult_init :: "bool \<Rightarrow> (string \<rightharpoonup> real) \<Rightarrow> error + LayoutResult" where
  "LayoutResult_init others_valid kwargs =
     (case validate_fields numeric_fields kwargs Map.empty (\<not> others_valid) of
        (values, failed) \<Rightarrow>
          if failed then Inl ValidationError
          else
            (case (values ''fabric_length_used'', values ''utilization_rate'',
                   values ''waste_percentage'', values ''total_area_used'',
                   values ''total_area_available'', values ''computation_time'') of
               (Some fl, Some ur, Some wp, Some au, Some av, Some ct) \<Rightarrow>
                 Inr \<lparr>fabric_length_used = fl, utilization_rate = ur, waste_percentage = wp,
                      total_area_used = au, total_area_available = av, computation_time = ct\<rparr>
             | _ \<Rightarrow> Inl ValidationError))"

section \<open>Python values for the demo engines and mock APIs\<close>

text \<open>
  The engines and the mock APIs work on JSON-like dictionaries. A dictionary is an
  association list in insertion order, looked up with \<^const>\<open>map_of\<close>. The functions are
  \<^verbatim>\<open>async\<close> and are awaited one after the other; they are modelled as ordinary calls. The
  clock and the random generator are inputs: each function takes the elapsed milliseconds
  it measures and the values it draws.
\<close>

datatype pyval =
    PNone
  | PBool bool
  | PInt int
  | PFloat real
  | PStr string
  | PList "pyval list"
  | PDict "(string \<times> pyval) list"

text \<open>\<^verbatim>\<open>obj.get(key, default)\<close>: only a dictionary has the method.\<close>

definition py_get :: "pyval \<Rightarrow> string \<Rightarrow> pyval \<Rightarrow> error + pyval" where
  "py_get obj key dflt =
     (case obj of
        PDict d \<Rightarrow> (case map_of d key of Some v \<Rightarrow> Inr v | None \<Rightarrow> Inr dflt)
      | _ \<Rightarrow> Inl AttributeError)"

text \<open>\<^verbatim>\<open>len(obj)\<close>\<close>

definition py_len :: "pyval \<Rightarrow> error + nat" where
  "py_len obj =
     (case obj of
        PList vs \<Rightarrow> Inr (length vs)
      | PDict d \<Rightarrow> Inr (length d)
      | PStr s \<Rightarrow> Inr (length s)
      | _ \<Rightarrow> Inl TypeError)"

text \<open>The items a \<^verbatim>\<open>for\<close> loop visits: the elements of a list, the keys of a dictionary,
  the characters of a string.\<close>

definition py_iter :: "pyval \<Rightarrow> error + pyval list" where
  "py_iter obj =
     (case obj of
        PList vs \<Rightarrow> Inr vs
      | PDict d \<Rightarrow> Inr (map (\<lambda>kv. PStr (fst kv)) d)
      | PStr s \<Rightarrow> Inr (map (\<lambda>c. PStr [c]) s)
      | _ \<Rightarrow> Inl TypeError)"

text \<open>The number a value stands for in arithmetic; booleans count as 0 and 1.\<close>

definition py_number :: "pyval \<Rightarrow> real option" where
  "py_number v =
     (case v of
        PInt n \<Rightarrow> Some (real_of_int n)
      | PFloat q \<Rightarrow> Some q
      | PBool t \<Rightarrow> Some (if t then 1 else 0)
      | _ \<Rightarrow> None)"

text \<open>\<^verbatim>\<open>n / v\<close> for an integer \<open>n\<close>: true division, a float.\<close>

definition py_truediv :: "int \<Rightarrow> pyval \<Rightarrow> error + real" where
  "py_truediv n v =
     (case py_number v of
        None \<Rightarrow> Inl TypeError
      | Some d \<Rightarrow> truediv (real_of_int n) d)"

text \<open>\<^verbatim>\<open>str(n)\<close> for a natural number, as an f-string renders it.\<close>

fun str_nat :: "nat \<Rightarrow> string" where
  "str_nat n =
     (if n < 10 then [''0123456789'' ! n]
      else str_nat (n div 10) @ [''0123456789'' ! (n mod 10)])"

declare str_nat.simps [simp del]

definition str_int :: "int \<Rightarrow> string" where
  "str_int i = (if i < 0 then CHR ''-'' # str_nat (nat (- i)) else str_nat (nat i))"

text \<open>\<^verbatim>\<open>random.uniform(a, b)\<close> is \<^verbatim>\<open>a + (b - a) * random()\<close>, where \<^verbatim>\<open>random()\<close> draws
  \<open>u\<close> with \<open>0 \<le> u < 1\<close>.\<close>

definition uniform :: "real \<Rightarrow> real \<Rightarrow> real \<Rightarrow> real" where
  "uniform lo hi u = lo + (hi - lo) * u"

section \<open>The pattern generator (lanfinitas\_pattern/fake\_pattern\_generator.py)\<close>

record FakePatternGenerator =
  last_generation_time :: int
  metrics :: "(string \<times> pyval) list"

definition FakePatternGenerator_init :: FakePatternGenerator where
  "FakePatternGenerator_init = \<lparr>last_generation_time = 0, metrics = []\<rparr>"

definition xy :: "int \<Rightarrow> int \<Rightarrow> pyval" where
  "xy px py = PDict [(''x'', PInt px), (''y'', PInt py)]"

text \<open>\<open>rand_id\<close> is the value of \<^verbatim>\<open>random.randint(1000, 9999)\<close>, \<open>elapsed_ms\<close> the value of
  \<^verbatim>\<open>int((time.time() - start_time) * 1000)\<close>.\<close>

definition generate ::
  "FakePatternGenerator \<Rightarrow> pyval \<Rightarrow> pyval \<Rightarrow> int \<Rightarrow> int \<Rightarrow> error + (pyval \<times> FakePatternGenerator)" where
  "generate self design params rand_id elapsed_ms =
     bindE (py_get design ''id'' (PStr ''unknown'')) (\<lambda>design_id.
       let pieces =
             [PDict [(''id'', PStr ''front_panel''),
                     (''type'', PStr ''front''),
                     (''contour'', PList [xy 0 0, xy 50 0, xy 50 70, xy 0 70]),
                     (''seams'', PList
                        [PDict [(''id'', PStr ''side_seam''), (''type'', PStr ''plain''),
                                (''points'', PList [PList [PInt 50, PInt 0],
                                                    PList [PInt 50, PInt 70]])]]),
                     (''notches'', PList [])],
              PDict [(''id'', PStr ''back_panel''),
                     (''type'', PStr ''back''),
                     (''contour'', PList [xy 0 0, xy 50 0, xy 50 70, xy 0 70]),
                     (''seams'', PList
                        [PDict [(''id'', PStr ''side_seam''), (''type'', PStr ''plain''),
                                (''points'', PList [PList [PInt 0, PInt 0],
                                                    PList [PInt 0, PInt 70]])]]),
                     (''notches'', PList [])]];
           pattern =
             [(''id'', PStr (''pattern_'' @ str_int rand_id)),
              (''design_id'', design_id),
              (''pieces'', PList pieces),
              (''metadata'', PDict
                 [(''version'', PStr ''1.0.0-demo''),
                  (''generated_by'', PStr ''FakePatternGenerator''),
                  (''note'', PStr ''DEMO ONLY - Not real pattern data'')])]
       in Inr (PDict pattern,
               self\<lparr>last_generation_time := elapsed_ms,
                    metrics :=
                      [(''generation_time_ms'', PInt elapsed_ms),
                       (''num_pieces'', PInt (int (length pieces))),
                       (''total_area'', PFloat 7000.0),
                       (''seam_count'', PInt 2),
                       (''complexity_score'', PFloat 45.0)]\<rparr>))"

definition get_generation_metrics :: "FakePatternGenerator \<Rightarrow> pyval" where
  "get_generation_metrics self = PDict (metrics self)"

section \<open>The layout optimizer (lanfinitas\_layout/fake\_layout\_optimizer.py)\<close>

record FakeLayoutOptimizer =
  optimization_history :: "pyval list"
  last_optimization_time :: int

definition FakeLayoutOptimizer_init :: FakeLayoutOptimizer where
  "FakeLayoutOptimizer_init = \<lparr>optimization_history = [], last_optimization_time = 0\<rparr>"

text \<open>The loop \<^verbatim>\<open>for i, piece in enumerate(...)\<close> that builds the layout list.\<close>

fun place_pieces :: "nat \<Rightarrow> pyval list \<Rightarrow> error + pyval list" where
  "place_pieces i [] = Inr []"
| "place_pieces i (piece # rest) =
     bindE (py_get piece ''id'' (PStr (''piece_'' @ str_nat i))) (\<lambda>piece_id.
     bindE (place_pieces (Suc i) rest) (\<lambda>placed.
       Inr (PDict [(''piece_id'', piece_id),
                   (''position'', PDict [(''x'', PInt (int i * 60)), (''y'', PInt 0)]),
                   (''rotation'', PInt 0)] # placed)))"

text \<open>\<open>u_util\<close> and \<open>u_waste\<close> are the two draws of \<^verbatim>\<open>random()\<close> behind the calls of
  \<^verbatim>\<open>random.uniform\<close>.\<close>

definition optimize ::
  "FakeLayoutOptimizer \<Rightarrow> pyval \<Rightarrow> pyval \<Rightarrow> pyval \<Rightarrow> real \<Rightarrow> real \<Rightarrow> int
     \<Rightarrow> error + (pyval \<times> FakeLayoutOptimizer)" where
  "optimize self pattern fabric params u_util u_waste elapsed_ms =
     bindE (py_get pattern ''pieces'' (PList [])) (\<lambda>pieces.
     bindE (py_len pieces) (\<lambda>num_pieces.
     bindE (py_get fabric ''width'' (PInt 150)) (\<lambda>fabric_width.
     bindE (py_iter pieces) (\<lambda>items.
     bindE (place_pieces 0 items) (\<lambda>layout.
     bindE (py_truediv (int num_pieces * 60) fabric_width) (\<lambda>ratio.
       let fabric_length = ratio * 100 + 50;
           result = PDict
             [(''layout'', PList layout),
              (''fabric_length'', PFloat fabric_length),
              (''utilization'', PFloat (uniform 0.65 0.75 u_util)),
              (''waste_percentage'', PFloat (uniform 25 35 u_waste)),
              (''optimization_time_ms'', PInt elapsed_ms),
              (''metadata'', PDict
                 [(''version'', PStr ''1.0.0-demo''),
                  (''optimized_by'', PStr ''FakeLayoutOptimizer''),
                  (''note'', PStr
                     ''DEMO ONLY - Not real optimization (no RL, no genetic algorithm)'')])]
       in Inr (result,
               self\<lparr>last_optimization_time := elapsed_ms,
                    optimization_history := optimization_history self @ [result]\<rparr>)))))))"

definition evaluate_layout ::
  "FakeLayoutOptimizer \<Rightarrow> pyval \<Rightarrow> pyval \<Rightarrow> pyval \<Rightarrow> real \<Rightarrow> real \<Rightarrow> real \<Rightarrow> real \<Rightarrow> pyval" where
  "evaluate_layout self layout pattern fabric u1 u2 u3 u4 =
     PDict [(''utilization'', PFloat (uniform 0.65 0.75 u1)),
            (''waste'', PFloat (uniform 2000 3000 u2)),
            (''compactness'', PFloat (uniform 0.6 0.8 u3)),
            (''grain_alignment'', PFloat (uniform 0.7 0.9 u4))]"

definition suggest_improvements :: "FakeLayoutOptimizer \<Rightarrow> pyval \<Rightarrow> pyval \<Rightarrow> pyval" where
  "suggest_improvements self layout pattern =
     PList [PStr ''Try rotating piece 1 by 90 degrees'',
            PStr ''Consider grouping similar pieces together'',
            PStr ''Review grain line alignment for piece 2'']"

definition get_optimization_history :: "FakeLayoutOptimizer \<Rightarrow> pyval list" where
  "get_optimization_history self = optimization_history self"

section \<open>The fabric simulator (lanfinitas\_fabric/fake\_fabric\_simulator.py)\<close>

record FakeFabricSimulator =
  last_simulation_time :: int
  sim_metrics :: "(string \<times> pyval) list"

definition FakeFabricSimulator_init :: FakeFabricSimulator where
  "FakeFabricSimulator_init = \<lparr>last_simulation_time = 0, sim_metrics = []\<rparr>"

definition xyz :: "pyval \<Rightarrow> pyval \<Rightarrow> pyval \<Rightarrow> pyval" where
  "xyz px py pz = PDict [(''x'', px), (''y'', py), (''z'', pz)]"

definition simulate_draping ::
  "FakeFabricSimulator \<Rightarrow> pyval \<Rightarrow> pyval \<Rightarrow> pyval \<Rightarrow> pyval \<Rightarrow> int \<Rightarrow> int
     \<Rightarrow> pyval \<times> FakeFabricSimulator" where
  "simulate_draping self pattern design fabric params rand_id elapsed_ms =
     (let mesh = PDict
            [(''id'', PStr (''draped_mesh_'' @ str_int rand_id)),
             (''vertices'', PList
                [xyz (PInt 0) (PInt 0) (PInt 0),
                 xyz (PInt 10) (PInt 0) (PFloat 0.5),
                 xyz (PInt 10) (PInt 10) (PFloat 0.3),
                 xyz (PInt 0) (PInt 10) (PFloat 0.2)]),
             (''faces'', PList
                [PDict [(''indices'', PList [PInt 0, PInt 1, PInt 2])],
                 PDict [(''indices'', PList [PInt 0, PInt 2, PInt 3])]]),
             (''normals'', PList
                [xyz (PInt 0) (PInt 0) (PInt 1),
                 xyz (PInt 0) (PInt 0) (PInt 1)]),
             (''metadata'', PDict
                [(''version'', PStr ''1.0.0-demo''),
                 (''simulated_by'', PStr ''FakeFabricSimulator''),
                 (''note'', PStr ''DEMO ONLY - Not real physics simulation'')])]
      in (mesh,
          self\<lparr>last_simulation_time := elapsed_ms,
               sim_metrics :=
                 [(''simulation_time_ms'', PInt elapsed_ms),
                  (''iterations_completed'', PInt 100),
                  (''convergence_rate'', PFloat 0.95),
                  (''energy'', PFloat 12.5),
                  (''stability'', PFloat 0.98)]\<rparr>))"

definition calculate_fit :: "FakeFabricSimulator \<Rightarrow> pyval \<Rightarrow> pyval \<Rightarrow> pyval" where
  "calculate_fit self fabric_mesh body_mesh =
     PDict
       [(''ease_distribution'', PDict
           [(''bust'', PFloat 5.0), (''waist'', PFloat 3.0), (''hip'', PFloat 4.5)]),
        (''pressure_points'', PList
           [PDict [(''location'', PStr ''shoulder''), (''pressure'', PFloat 0.3)],
            PDict [(''location'', PStr ''armpit''), (''pressure'', PFloat 0.5)]]),
        (''gap_areas'', PList
           [PDict [(''location'', PStr ''waist_back''), (''gap_cm'', PFloat 0.8)]]),
        (''overall_fit_score'', PFloat 0.82),
        (''metadata'', PDict [(''note'', PStr ''DEMO - Placeholder fit metrics'')])]"

definition get_simulation_metrics :: "FakeFabricSimulator \<Rightarrow> pyval" where
  "get_simulation_metrics self = PDict (sim_metrics self)"

section \<open>The mock APIs (api/mock)\<close>

record MockPatternAPI =
  generator :: FakePatternGenerator

record MockFabricAPI =
  simulator :: FakeFabricSimulator

record MockLayoutAPI =
  optimizer :: FakeLayoutOptimizer

definition MockPatternAPI_init :: MockPatternAPI where
  "MockPatternAPI_init = \<lparr>generator = FakePatternGenerator_init\<rparr>"

definition MockFabricAPI_init :: MockFabricAPI where
  "MockFabricAPI_init = \<lparr>simulator = FakeFabricSimulator_init\<rparr>"

definition MockLayoutAPI_init :: MockLayoutAPI where
  "MockLayoutAPI_init = \<lparr>optimizer = FakeLayoutOptimizer_init\<rparr>"

subsection \<open>\<^verbatim>\<open>MockPatternAPI\<close>\<close>

definition generate_pattern ::
  "MockPatternAPI \<Rightarrow> pyval \<Rightarrow> int \<Rightarrow> int \<Rightarrow> error + (pyval \<times> MockPatternAPI)" where
  "generate_pattern self design_data rand_id elapsed_ms =
     bindE (generate (generator self) design_data PNone rand_id elapsed_ms) (\<lambda>(pattern, gen).
       Inr (PDict
              [(''success'', PBool True),
               (''data'', PDict
                  [(''pattern'', pattern),
                   (''metrics'', get_generation_metrics gen)]),
               (''message'', PStr ''DEMO: Pattern generated with placeholder data''),
               (''meta'', PDict
                  [(''version'', PStr ''1.0.0-demo''),
                   (''warning'', PStr ''This is demonstration data only'')])],
            self\<lparr>generator := gen\<rparr>))"

definition optimize_pattern :: "MockPatternAPI \<Rightarrow> pyval \<Rightarrow> pyval" where
  "optimize_pattern self pattern_id =
     PDict
       [(''success'', PBool True),
        (''data'', PDict
           [(''pattern_id'', pattern_id),
            (''optimization_applied'', PBool False),
            (''message'', PStr ''Demo only - no real optimization'')]),
        (''meta'', PDict
           [(''version'', PStr ''1.0.0-demo''),
            (''warning'', PStr ''This is demonstration data only'')])]"

definition rect_contour :: pyval where
  "rect_contour =
     PList [PList [PInt 0, PInt 0], PList [PInt 50, PInt 0],
            PList [PInt 50, PInt 70], PList [PInt 0, PInt 70]]"

definition get_pattern :: "MockPatternAPI \<Rightarrow> pyval \<Rightarrow> pyval" where
  "get_pattern self pattern_id =
     PDict
       [(''success'', PBool True),
        (''data'', PDict
           [(''id'', pattern_id),
            (''pieces'', PList
               [PDict [(''id'', PStr ''front''), (''type'', PStr ''front_panel''),
                       (''contour'', rect_contour)],
                PDict [(''id'', PStr ''back''), (''type'', PStr ''back_panel''),
                       (''contour'', rect_contour)]]),
            (''metadata'', PDict [(''note'', PStr ''DEMO data - placeholder pattern'')])]),
        (''meta'', PDict [(''version'', PStr ''1.0.0-demo'')])]"

subsection \<open>\<^verbatim>\<open>MockFabricAPI\<close>\<close>

definition api_simulate_draping ::
  "MockFabricAPI \<Rightarrow> pyval \<Rightarrow> int \<Rightarrow> int \<Rightarrow> error + (pyval \<times> MockFabricAPI)" where
  "api_simulate_draping self request_data rand_id elapsed_ms =
     bindE (py_get request_data ''pattern'' (PDict [])) (\<lambda>pattern.
     bindE (py_get request_data ''design'' (PDict [])) (\<lambda>design.
     bindE (py_get request_data ''fabric'' (PDict [])) (\<lambda>fabric.
       case simulate_draping (simulator self) pattern design fabric PNone rand_id elapsed_ms of
         (mesh, sim) \<Rightarrow>
           Inr (PDict
                  [(''success'', PBool True),
                   (''data'', PDict
                      [(''draped_mesh'', mesh),
                       (''metrics'', get_simulation_metrics sim)]),
                   (''message'', PStr ''DEMO: Simulation completed with placeholder physics''),
                   (''meta'', PDict
                      [(''version'', PStr ''1.0.0-demo''),
                       (''warning'', PStr
                          ''This is demonstration data only - no real physics simulation'')])],
                self\<lparr>simulator := sim\<rparr>))))"

definition api_calculate_fit :: "MockFabricAPI \<Rightarrow> pyval \<Rightarrow> error + pyval" where
  "api_calculate_fit self request_data =
     bindE (py_get request_data ''fabric_mesh'' (PDict [])) (\<lambda>fabric_mesh.
     bindE (py_get request_data ''body_mesh'' (PDict [])) (\<lambda>body_mesh.
       Inr (PDict
              [(''success'', PBool True),
               (''data'', calculate_fit (simulator self) fabric_mesh body_mesh),
               (''message'', PStr ''DEMO: Fit calculated with placeholder metrics''),
               (''meta'', PDict
                  [(''version'', PStr ''1.0.0-demo''),
                   (''warning'', PStr ''This is demonstration data only'')])])))"

definition get_fabric_properties :: "MockFabricAPI \<Rightarrow> pyval \<Rightarrow> pyval" where
  "get_fabric_properties self fabric_id =
     PDict
       [(''success'', PBool True),
        (''data'', PDict
           [(''id'', fabric_id),
            (''name'', PStr ''Cotton Poplin (Demo)''),
            (''type'', PStr ''cotton''),
            (''weight'', PStr ''light''),
            (''width'', PInt 150),
            (''physical_properties'', PDict
               [(''elasticity'', PFloat 0.1),
                (''shear'', PFloat 0.05),
                (''bend'', PFloat 0.02),
                (''note'', PStr ''Placeholder values for demo'')])]),
        (''meta'', PDict [(''version'', PStr ''1.0.0-demo'')])]"

subsection \<open>\<^verbatim>\<open>MockLayoutAPI\<close>\<close>

definition optimize_layout ::
  "MockLayoutAPI \<Rightarrow> pyval \<Rightarrow> real \<Rightarrow> real \<Rightarrow> int \<Rightarrow> error + (pyval \<times> MockLayoutAPI)" where
  "optimize_layout self request_data u_util u_waste elapsed_ms =
     bindE (py_get request_data ''pattern'' (PDict [])) (\<lambda>pattern.
     bindE (py_get request_data ''fabric'' (PDict [])) (\<lambda>fabric.
     bindE (py_get request_data ''params'' (PDict [])) (\<lambda>params.
     bindE (optimize (optimizer self) pattern fabric params u_util u_waste elapsed_ms)
       (\<lambda>(result, opt).
          Inr (PDict
                 [(''success'', PBool True),
                  (''data'', result),
                  (''message'', PStr
                     ''DEMO: Layout optimized with placeholder algorithm (no RL)''),
                  (''meta'', PDict
                     [(''version'', PStr ''1.0.0-demo''),
                      (''warning'', PStr
                         ''This is demonstration data only - no real RL optimization'')])],
               self\<lparr>optimizer := opt\<rparr>)))))"

definition api_evaluate_layout ::
  "MockLayoutAPI \<Rightarrow> pyval \<Rightarrow> real \<Rightarrow> real \<Rightarrow> real \<Rightarrow> real \<Rightarrow> error + pyval" where
  "api_evaluate_layout self request_data u1 u2 u3 u4 =
     bindE (py_get request_data ''layout'' (PList [])) (\<lambda>layout.
     bindE (py_get request_data ''pattern'' (PDict [])) (\<lambda>pattern.
     bindE (py_get request_data ''fabric'' (PDict [])) (\<lambda>fabric.
       Inr (PDict
              [(''success'', PBool True),
               (''data'', PDict
                  [(''metrics'', evaluate_layout (optimizer self) layout pattern fabric u1 u2 u3 u4),
                   (''suggestions'', suggest_improvements (optimizer self) (PDict []) pattern)]),
               (''message'', PStr ''DEMO: Layout evaluated with placeholder metrics''),
               (''meta'', PDict
                  [(''version'', PStr ''1.0.0-demo''),
                   (''warning'', PStr ''This is demonstration data only'')])]))))"

definition api_get_optimization_history :: "MockLayoutAPI \<Rightarrow> pyval" where
  "api_get_optimization_history self =
     (let history = get_optimization_history (optimizer self) in
      PDict
        [(''success'', PBool True),
         (''data'', PDict
            [(''history'', PList history),
             (''count'', PInt (int (length history)))]),
         (''meta'', PDict [(''version'', PStr ''1.0.0-demo'')])])"

text \<open>What the specification says of an envelope: its \<^verbatim>\<open>success\<close> entry is True, its
  \<^verbatim>\<open>meta\<close> entry is a dictionary with \<^verbatim>\<open>version\<close> equal to \<^verbatim>\<open>1.0.0-demo\<close>, and it has no
  \<^verbatim>\<open>error\<close> entry.\<close>

definition success_envelope :: "pyval \<Rightarrow> bool" where
  "success_envelope env =
     (case env of
        PDict d \<Rightarrow>
          map_of d ''success'' = Some (PBool True)
          \<and> (case map_of d ''meta'' of
                Some (PDict meta) \<Rightarrow> map_of meta ''version'' = Some (PStr ''1.0.0-demo'')
              | _ \<Rightarrow> False)
          \<and> ''error'' \<notin> set (map fst d)
      | _ \<Rightarrow> False)"

section \<open>In-place updates of shared dictionaries\<close>

text \<open>
  \<^verbatim>\<open>optimize_seams\<close>, \<^verbatim>\<open>add_seam_allowance\<close> and \<^verbatim>\<open>simulate_collision\<close> assign into the
  \<^verbatim>\<open>metadata\<close> dictionary of their argument and return the argument. Dictionaries are
  objects in a store here: a value refers to a dictionary by its address, so that two
  entries may refer to the same dictionary, and an assignment changes the store at one
  address. Lists are never assigned to by these functions and stay values.
\<close>

datatype val =
    VNone
  | VBool bool
  | VInt int
  | VFloat real
  | VStr string
  | VList "val list"
  | VRef nat

type_synonym store = "nat \<Rightarrow> (string \<times> val) list"

text \<open>\<^verbatim>\<open>obj[key]\<close> with a string key: KeyError on a dictionary without the key, TypeError on
  anything that is not a dictionary.\<close>

definition getitem :: "store \<Rightarrow> val \<Rightarrow> string \<Rightarrow> error + val" where
  "getitem st obj key =
     (case obj of
        VRef p \<Rightarrow> (case map_of (st p) key of None \<Rightarrow> Inl KeyError | Some v \<Rightarrow> Inr v)
      | _ \<Rightarrow> Inl TypeError)"

text \<open>\<^verbatim>\<open>obj[key] = v\<close> with a string key: an existing key keeps its place, a new key goes to
  the end.\<close>

definition setitem :: "store \<Rightarrow> val \<Rightarrow> string \<Rightarrow> val \<Rightarrow> error + store" where
  "setitem st obj key v =
     (case obj of
        VRef p \<Rightarrow> Inr (st(p := AList.update key v (st p)))
      | _ \<Rightarrow> Inl TypeError)"

definition optimize_seams :: "store \<Rightarrow> val \<Rightarrow> val \<Rightarrow> error + (store \<times> val)" where
  "optimize_seams st pattern fabric =
     bindE (getitem st pattern ''metadata'') (\<lambda>md.
     bindE (setitem st md ''seam_optimized'' (VBool True)) (\<lambda>st1.
     bindE (getitem st1 pattern ''metadata'') (\<lambda>md1.
     bindE (setitem st1 md1 ''note'' (VStr ''DEMO - No real optimization performed'')) (\<lambda>st2.
       Inr (st2, pattern)))))"

definition add_seam_allowance :: "store \<Rightarrow> val \<Rightarrow> val \<Rightarrow> error + (store \<times> val)" where
  "add_seam_allowance st pattern allowance =
     bindE (getitem st pattern ''metadata'') (\<lambda>md.
     bindE (setitem st md ''seam_allowance'' allowance) (\<lambda>st1.
     bindE (getitem st1 pattern ''metadata'') (\<lambda>md1.
     bindE (setitem st1 md1 ''note'' (VStr ''DEMO - No real seam allowance added'')) (\<lambda>st2.
       Inr (st2, pattern)))))"

definition simulate_collision :: "store \<Rightarrow> val \<Rightarrow> val \<Rightarrow> val \<Rightarrow> error + (store \<times> val)" where
  "simulate_collision st fabric_mesh body_mesh fabric =
     bindE (getitem st fabric_mesh ''metadata'') (\<lambda>md.
     bindE (setitem st md ''collision_resolved'' (VBool True)) (\<lambda>st1.
     bindE (getitem st1 fabric_mesh ''metadata'') (\<lambda>md1.
     bindE (setitem st1 md1 ''note'' (VStr ''DEMO - No real collision detection'')) (\<lambda>st2.
       Inr (st2, fabric_mesh)))))"

text \<open>A small store: a pattern at address 0 with its metadata at 1 and a piece at 2, and a
  mesh at 3 with its metadata at 4.\<close>

definition demo_store :: store where
  "demo_store =
     (\<lambda>_. [])
       (0 := [(''id'', VStr ''pattern_1''), (''pieces'', VList [VRef 2]), (''metadata'', VRef 1)],
        1 := [(''version'', VStr ''1.0.0-demo''), (''note'', VStr ''DEMO ONLY'')],
        2 := [(''id'', VStr ''front_panel''),
              (''contour'', VList [VList [VInt 0, VInt 0], VList [VInt 50, VInt 0],
                                   VList [VInt 50, VInt 70]])],
        3 := [(''vertices'', VList [VInt 0]), (''faces'', VList []), (''normals'', VList []),
              (''metadata'', VRef 4)],
        4 := [])"

section \<open>Bounding boxes: intersection\<close>

text \<open>
  Claim C7. For bounding boxes whose minimum corner is componentwise below their maximum
  corner, \<^verbatim>\<open>intersection\<close> returns None exactly when \<^verbatim>\<open>intersects\<close> is false; a returned
  box has the componentwise maximum of the two minimum corners as its minimum corner and
  the componentwise minimum of the two maximum corners as its maximum corner, and is again
  well formed; boxes that share only an edge coordinate still yield a box, of area zero.
\<close>

theorem intersection_none_iff_disjoint:
  assumes "well_formed box1" "well_formed box2"
  shows "(intersection box1 box2 = None \<longleftrightarrow> \<not> intersects box1 box2)
       \<and> (\<forall>res. intersection box1 box2 = Some res \<longrightarrow>
             x (min_point res) = max (x (min_point box1)) (x (min_point box2))
           \<and> y (min_point res) = max (y (min_point box1)) (y (min_point box2))
           \<and> x (max_point res) = min (x (max_point box1)) (x (max_point box2))
           \<and> y (max_point res) = min (y (max_point box1)) (y (max_point box2))
           \<and> well_formed res)
       \<and> (intersects box1 box2
            \<and> (x (max_point box1) = x (min_point box2) \<or> x (max_point box2) = x (min_point box1)
               \<or> y (max_point box1) = y (min_point box2) \<or> y (max_point box2) = y (min_point box1))
          \<longrightarrow> (\<exists>res. intersection box1 box2 = Some res \<and> area res = 0))"
  using assms
  by (auto simp: intersection_def intersects_def well_formed_def Let_def area_def
      width_def height_def)

theorem intersection_none_iff_disjoint_witness:
  "well_formed (box 0 0 1 1) \<and> well_formed (box 1 0 2 1)
   \<and> intersects (box 0 0 1 1) (box 1 0 2 1)
   \<and> intersection (box 0 0 1 1) (box 1 0 2 1) = Some (box 1 0 1 1)
   \<and> area (box 1 0 1 1) = 0"
  using intersection_none_iff_disjoint [of "box 0 0 1 1" "box 1 0 2 1"]
  by (simp add: well_formed_def box_def intersection_def intersects_def area_def
      width_def height_def)

section \<open>IoU in floating-point arithmetic\<close>

text \<open>When an operation has a finite result, its operands are finite and the rounded exact
  result lies within the finite range.\<close>

lemma fround_Finite_iff:
  "fround fmt z = Finite v \<longleftrightarrow> v = rnd fmt z \<and> - fmax fmt \<le> rnd fmt z \<and> rnd fmt z \<le> fmax fmt"
  by (auto simp: fround_def Let_def)

lemma fmul_Finite:
  assumes "fmul fmt u v = Finite z"
  shows "\<exists>p q. u = Finite p \<and> v = Finite q \<and> fround fmt (p * q) = Finite z"
  using assms by (cases u; cases v) (auto simp: signed_inf_def split: if_splits)

lemma fsub_Finite:
  assumes "fsub fmt u v = Finite z"
  shows "\<exists>p q. u = Finite p \<and> v = Finite q \<and> fround fmt (p - q) = Finite z"
  using assms by (cases u; cases v) (auto simp: fsub_def)

text \<open>Addition commutes, and on finite values \<^verbatim>\<open>max\<close> and \<^verbatim>\<open>min\<close> are the maximum and the
  minimum.\<close>

lemma fadd_commute: "fadd fmt u v = fadd fmt v u"
  by (cases u; cases v) (simp_all add: add.commute)

lemma py_max_Finite: "py_max (Finite p) (Finite q) = Finite (max p q)"
  by (simp add: py_max_def fgt_def max_def)

lemma py_min_Finite: "py_min (Finite p) (Finite q) = Finite (min p q)"
  by (simp add: py_min_def min_def)

text \<open>A box with a finite area has finite coordinates, a finite width and a finite height.\<close>

lemma finite_area_box:
  assumes "area_f fmt bx = Finite ar"
  shows "\<exists>p0 q0 p1 q1. bx = box_f p0 q0 p1 q1
           \<and> width_f fmt bx = Finite (rnd fmt (p1 - p0))
           \<and> height_f fmt bx = Finite (rnd fmt (q1 - q0))
           \<and> ar = rnd fmt (rnd fmt (p1 - p0) * rnd fmt (q1 - q0))
           \<and> rnd fmt (p1 - p0) \<le> fmax fmt \<and> rnd fmt (q1 - q0) \<le> fmax fmt
           \<and> ar \<le> fmax fmt"
proof -
  from fmul_Finite [OF assms [unfolded area_f_def]] obtain w h
    where w: "width_f fmt bx = Finite w" and h: "height_f fmt bx = Finite h"
      and ar: "fround fmt (w * h) = Finite ar" by blast
  from fsub_Finite [OF w [unfolded width_f_def]] obtain p1 p0
    where p: "x_f (max_point_f bx) = Finite p1" "x_f (min_point_f bx) = Finite p0"
      "fround fmt (p1 - p0) = Finite w" by blast
  from fsub_Finite [OF h [unfolded height_f_def]] obtain q1 q0
    where q: "y_f (max_point_f bx) = Finite q1" "y_f (min_point_f bx) = Finite q0"
      "fround fmt (q1 - q0) = Finite h" by blast
  have "bx = box_f p0 q0 p1 q1"
    using p(1,2) q(1,2) by (cases bx, cases "min_point_f bx", cases "max_point_f bx")
      (simp add: box_f_def)
  moreover have "w = rnd fmt (p1 - p0)" "w \<le> fmax fmt"
    using p(3) by (simp_all add: fround_Finite_iff)
  moreover have "h = rnd fmt (q1 - q0)" "h \<le> fmax fmt"
    using q(3) by (simp_all add: fround_Finite_iff)
  moreover have "ar = rnd fmt (w * h)" "ar \<le> fmax fmt"
    using ar by (simp_all add: fround_Finite_iff)
  ultimately show ?thesis using w h by blast
qed


text \<open>Two boxes with finite coordinates intersect in the box between the larger minima and
  the smaller maxima, in either order of the arguments.\<close>

lemma intersects_f_box:
  "intersects_f (box_f p0 q0 p1 q1) (box_f s0 t0 s1 t1)
     \<longleftrightarrow> s0 \<le> p1 \<and> p0 \<le> s1 \<and> t0 \<le> q1 \<and> q0 \<le> t1"
  by (auto simp: intersects_f_def box_f_def fgt_def)

lemma intersection_f_box:
  "intersection_f (box_f p0 q0 p1 q1) (box_f s0 t0 s1 t1) =
     (if s0 \<le> p1 \<and> p0 \<le> s1 \<and> t0 \<le> q1 \<and> q0 \<le> t1
      then Some (box_f (max p0 s0) (max q0 t0) (min p1 s1) (min q1 t1)) else None)"
  unfolding intersection_f_def intersects_f_box
  by (simp add: box_f_def py_max_Finite py_min_Finite Let_def)

lemma intersection_f_box_commute:
  "intersection_f (box_f p0 q0 p1 q1) (box_f s0 t0 s1 t1)
     = intersection_f (box_f s0 t0 s1 t1) (box_f p0 q0 p1 q1)"
  unfolding intersection_f_box by (auto simp: max.commute min.commute)

lemma iou_box_commute:
  "iou fmt (box_f p0 q0 p1 q1) (box_f s0 t0 s1 t1)
     = iou fmt (box_f s0 t0 s1 t1) (box_f p0 q0 p1 q1)"
  unfolding iou_def intersection_f_box_commute [of p0 q0 p1 q1 s0 t0 s1 t1]
  by (subst fadd_commute [of fmt "area_f fmt (box_f p0 q0 p1 q1)"]) (rule refl)

text \<open>The quotient of a finite intersection area by the union area, when the intersection
  area is at most either area.\<close>

lemma iou_quotient_in_range:
  assumes fmt: "rounds_to_nearest fmt"
    and i: "0 \<le> rnd fmt z" "rnd fmt z \<le> a1" "rnd fmt z \<le> a2"
    and a: "a1 \<le> fmax fmt" "a2 \<le> fmax fmt"
  shows "\<exists>v. (let intersection_area = Finite (rnd fmt z);
                   union_area = fsub fmt (fadd fmt (Finite a1) (Finite a2)) intersection_area
               in if feq union_area (Finite 0) then Inr (Finite 0)
                  else fdiv fmt intersection_area union_area) = Inr (Finite v)
             \<and> 0 \<le> v \<and> v \<le> 1"
proof -
  from fmt have mono: "\<And>u v. u \<le> v \<Longrightarrow> rnd fmt u \<le> rnd fmt v"
    and r0: "rnd fmt 0 = 0" and r1: "rnd fmt 1 = 1"
    and idem: "\<And>v. rnd fmt (rnd fmt v) = rnd fmt v"
    and dbl: "\<And>v. rnd fmt (2 * rnd fmt v) = 2 * rnd fmt v"
    and one: "1 \<le> fmax fmt"
    by (simp_all add: rounds_to_nearest_def)
  define ia where "ia = rnd fmt z"
  define sm where "sm = rnd fmt (a1 + a2)"
  have ia: "0 \<le> ia" "ia \<le> a1" "ia \<le> a2" "rnd fmt ia = ia"
    using i idem by (simp_all add: ia_def)
  have "2 * ia \<le> a1 + a2" using ia by linarith
  from mono [OF this] have sm2: "2 * ia \<le> sm"
    by (simp add: sm_def ia_def dbl)
  have sm_idem: "rnd fmt sm = sm" by (simp add: sm_def idem)
  have sm0: "0 \<le> sm" using sm2 ia(1) by linarith
  have fmax0: "0 \<le> fmax fmt" using one by linarith
  show ?thesis
  proof (cases "fmax fmt < sm")
    case True
    then have "fround fmt (a1 + a2) = PosInf"
      by (simp add: fround_def sm_def)
    then show ?thesis
      by (simp add: fsub_def feq_def fdiv_def ia_def [symmetric])
  next
    case False
    then have sum: "fround fmt (a1 + a2) = Finite sm"
      using sm0 fmax0 by (simp add: fround_def sm_def [symmetric])
    define un where "un = rnd fmt (sm - ia)"
    have "ia \<le> sm - ia" "sm - ia \<le> sm" using sm2 ia(1) by linarith+
    from mono [OF this(1)] mono [OF this(2)]
    have un: "ia \<le> un" "un \<le> sm"
      by (simp_all add: un_def ia(4) sm_idem)
    have un_fin: "fsub fmt (Finite sm) (Finite ia) = Finite un"
      using un ia(1) False fmax0 by (simp add: fsub_def fround_def un_def [symmetric])
    show ?thesis
    proof (cases "un = 0")
      case True
      then show ?thesis
        by (simp add: ia_def [symmetric] sum un_fin feq_def)
    next
      case False
      then have pos: "0 < un" using un(1) ia(1) by linarith
      have "0 \<le> ia / un" "ia / un \<le> 1"
        using pos ia(1) un(1) by simp_all
      from mono [OF this(1)] mono [OF this(2)]
      have q: "0 \<le> rnd fmt (ia / un)" "rnd fmt (ia / un) \<le> 1"
        by (simp_all add: r0 r1)
      then have "fround fmt (ia / un) = Finite (rnd fmt (ia / un))"
        using one by (simp add: fround_def)
      then have "fdiv fmt (Finite ia) (Finite un) = Inr (Finite (rnd fmt (ia / un)))"
        using False by (simp add: fdiv_def)
      with q False show ?thesis
        by (simp add: ia_def [symmetric] sum un_fin feq_def)
    qed
  qed
qed


text \<open>A nonnegative quantity below one with a finite rounding rounds to a finite value.\<close>

lemma well_formed_f_box: "well_formed_f (box_f p0 q0 p1 q1) \<longleftrightarrow> p0 \<le> p1 \<and> q0 \<le> q1"
  by (auto simp: well_formed_f_def box_f_def fle_def feq_def)

lemma width_f_box: "width_f fmt (box_f p0 q0 p1 q1) = fround fmt (p1 - p0)"
  by (simp add: width_f_def box_f_def fsub_def)

lemma height_f_box: "height_f fmt (box_f p0 q0 p1 q1) = fround fmt (q1 - q0)"
  by (simp add: height_f_def box_f_def fsub_def)

lemma fround_between:
  assumes "rounds_to_nearest fmt" "0 \<le> z" "z \<le> z'" "rnd fmt z' \<le> fmax fmt"
  shows "fround fmt z = Finite (rnd fmt z) \<and> 0 \<le> rnd fmt z \<and> rnd fmt z \<le> rnd fmt z'"
proof -
  from assms(1) have mono: "\<And>u v. u \<le> v \<Longrightarrow> rnd fmt u \<le> rnd fmt v"
    and r0: "rnd fmt 0 = 0" and one: "1 \<le> fmax fmt"
    by (simp_all add: rounds_to_nearest_def)
  have lo: "0 \<le> rnd fmt z" using mono [OF assms(2)] by (simp add: r0)
  have hi: "rnd fmt z \<le> rnd fmt z'" by (rule mono [OF assms(3)])
  have "\<not> fmax fmt < rnd fmt z" "\<not> rnd fmt z < - fmax fmt"
    using lo hi assms(4) one by linarith+
  then show ?thesis using lo hi by (simp add: fround_def)
qed

text \<open>Where the claim about IoU holds: for well-formed boxes whose own areas are finite,
  that is, computed without overflow, the IoU is a finite value, the same in both argument
  orders, between 0 and 1, and 0 when the boxes do not intersect.\<close>

lemma iou_in_range_for_finite_areas:
  assumes fmt: "rounds_to_nearest fmt"
    and wf: "well_formed_f box1" "well_formed_f box2"
    and fin: "area_f fmt box1 = Finite a1" "area_f fmt box2 = Finite a2"
  shows "\<exists>v. iou fmt box1 box2 = Inr (Finite v) \<and> iou fmt box2 box1 = Inr (Finite v)
            \<and> 0 \<le> v \<and> v \<le> 1 \<and> (\<not> intersects_f box1 box2 \<longrightarrow> v = 0)"
proof -
  from finite_area_box [OF fin(1)] obtain p0 q0 p1 q1 where
    b1: "box1 = box_f p0 q0 p1 q1"
    and a1: "a1 = rnd fmt (rnd fmt (p1 - p0) * rnd fmt (q1 - q0))"
    and m1: "rnd fmt (p1 - p0) \<le> fmax fmt" "rnd fmt (q1 - q0) \<le> fmax fmt" "a1 \<le> fmax fmt"
    by blast
  from finite_area_box [OF fin(2)] obtain s0 t0 s1 t1 where
    b2: "box2 = box_f s0 t0 s1 t1"
    and a2: "a2 = rnd fmt (rnd fmt (s1 - s0) * rnd fmt (t1 - t0))"
    and m2: "rnd fmt (s1 - s0) \<le> fmax fmt" "rnd fmt (t1 - t0) \<le> fmax fmt" "a2 \<le> fmax fmt"
    by blast
  from wf have ord: "p0 \<le> p1" "q0 \<le> q1" "s0 \<le> s1" "t0 \<le> t1"
    by (simp_all add: b1 b2 well_formed_f_box)
  from fmt have mono: "\<And>u v. u \<le> v \<Longrightarrow> rnd fmt u \<le> rnd fmt v"
    and r0: "rnd fmt 0 = 0"
    by (simp_all add: rounds_to_nearest_def)
  have sym: "iou fmt box2 box1 = iou fmt box1 box2"
    unfolding b1 b2 by (rule iou_box_commute)
  show ?thesis
  proof (cases "s0 \<le> p1 \<and> p0 \<le> s1 \<and> t0 \<le> q1 \<and> q0 \<le> t1")
    case False
    then have "intersection_f box1 box2 = None" "\<not> intersects_f box1 box2"
      by (simp_all add: b1 b2 intersection_f_box intersects_f_box)
    then have "iou fmt box1 box2 = Inr (Finite 0)"
      by (simp add: iou_def)
    with sym show ?thesis by simp
  next
    case True
    define ib where "ib = box_f (max p0 s0) (max q0 t0) (min p1 s1) (min q1 t1)"
    define dw where "dw = min p1 s1 - max p0 s0"
    define dh where "dh = min q1 t1 - max q0 t0"
    have inter: "intersection_f box1 box2 = Some ib" "intersects_f box1 box2"
      using True by (simp_all add: b1 b2 intersection_f_box intersects_f_box ib_def)
    have dw: "0 \<le> dw" "dw \<le> p1 - p0" "dw \<le> s1 - s0"
      using True ord by (auto simp: dw_def)
    have dh: "0 \<le> dh" "dh \<le> q1 - q0" "dh \<le> t1 - t0"
      using True ord by (auto simp: dh_def)
    from fround_between [OF fmt dw(1,2) m1(1)]
    have w: "width_f fmt ib = Finite (rnd fmt dw)" "0 \<le> rnd fmt dw"
      "rnd fmt dw \<le> rnd fmt (p1 - p0)"
      by (simp_all add: ib_def width_f_box dw_def)
    have w2: "rnd fmt dw \<le> rnd fmt (s1 - s0)" by (rule mono [OF dw(3)])
    from fround_between [OF fmt dh(1,2) m1(2)]
    have h: "height_f fmt ib = Finite (rnd fmt dh)" "0 \<le> rnd fmt dh"
      "rnd fmt dh \<le> rnd fmt (q1 - q0)"
      by (simp_all add: ib_def height_f_box dh_def)
    have h2: "rnd fmt dh \<le> rnd fmt (t1 - t0)" by (rule mono [OF dh(3)])
    have prod0: "0 \<le> rnd fmt dw * rnd fmt dh"
      using w(2) h(2) by simp
    have prod1: "rnd fmt dw * rnd fmt dh \<le> rnd fmt (p1 - p0) * rnd fmt (q1 - q0)"
      using w(2,3) h(2,3) by (intro mult_mono) auto
    have prod2: "rnd fmt dw * rnd fmt dh \<le> rnd fmt (s1 - s0) * rnd fmt (t1 - t0)"
      using w(2) w2 h(2) h2 by (intro mult_mono) auto
    from fround_between [OF fmt prod0 prod1] m1(3)
    have ia: "fround fmt (rnd fmt dw * rnd fmt dh) = Finite (rnd fmt (rnd fmt dw * rnd fmt dh))"
      "0 \<le> rnd fmt (rnd fmt dw * rnd fmt dh)" "rnd fmt (rnd fmt dw * rnd fmt dh) \<le> a1"
      by (simp_all add: a1)
    have ia2: "rnd fmt (rnd fmt dw * rnd fmt dh) \<le> a2"
      unfolding a2 by (rule mono [OF prod2])
    have area_ib: "area_f fmt ib = Finite (rnd fmt (rnd fmt dw * rnd fmt dh))"
      by (simp add: area_f_def w(1) h(1) ia(1))
    from iou_quotient_in_range [OF fmt ia(2,3) ia2 m1(3) m2(3)]
    obtain v where "iou fmt box1 box2 = Inr (Finite v)" "0 \<le> v" "v \<le> 1"
      unfolding iou_def inter(1) option.case area_ib fin by blast
    with sym inter(2) show ?thesis by simp
  qed
qed

text \<open>Powers of two are binary64 values; the side of the huge box is finite and its square is
  beyond the largest finite value.\<close>

lemma round_half_even_of_int: "round_half_even (of_int k) = k"
  by (simp add: round_half_even_def)

lemma binary64_rnd_pow2: "binary64_rnd (2 ^ n) = 2 ^ n"
proof -
  have e: "max \<lfloor>log 2 \<bar>(2::real) ^ n\<bar>\<rfloor> (- 1022) = int n"
    by simp
  have u: "(2::real) powi (int n - 52) = 2 ^ n / 2 ^ 52"
    by (simp add: power_int_diff)
  have q: "(2::real) ^ n / (2 ^ n / 2 ^ 52) = of_int (2 ^ 52)"
    by simp
  show ?thesis
    unfolding binary64_rnd_def Let_def e u q round_half_even_of_int
    by simp
qed

lemma huge_facts:
  "0 < huge" "huge \<le> fmax binary64" "fmax binary64 < huge * huge"
  "rnd binary64 huge = huge" "rnd binary64 (huge * huge) = huge * huge"
proof -
  show "0 < huge" by (simp only: huge_def zero_less_power zero_less_numeral)
  have "(2::real) ^ 700 \<le> 2 ^ 971" by (rule power_increasing) simp_all
  also have "\<dots> \<le> (2 ^ 53 - 1) * 2 ^ 971" by simp
  finally show "huge \<le> fmax binary64" by (simp only: huge_def binary64_def format.simps)
  have sq: "huge * huge = 2 ^ 1400"
    unfolding huge_def by (simp only: power_add [symmetric]) simp
  have "(2 ^ 53 - 1) * (2::real) ^ 971 < 2 ^ 53 * 2 ^ 971" by simp
  also have "\<dots> = 2 ^ 1024" by (simp only: power_add [symmetric]) simp
  also have "\<dots> \<le> 2 ^ 1400" by (rule power_increasing) simp_all
  finally show "fmax binary64 < huge * huge" by (simp only: sq binary64_def format.simps)
  show "rnd binary64 huge = huge"
    by (simp only: huge_def binary64_def format.simps binary64_rnd_pow2)
  show "rnd binary64 (huge * huge) = huge * huge"
    by (simp only: sq binary64_def format.simps binary64_rnd_pow2)
qed

lemma fround_huge: "fround binary64 huge = Finite huge"
proof -
  have "\<not> fmax binary64 < huge" "\<not> huge < - fmax binary64"
    using huge_facts(1,2) by linarith+
  then show ?thesis
    by (simp only: fround_def Let_def huge_facts(4) if_False)
qed

lemma fround_huge_area: "fround binary64 (huge * huge) = PosInf"
  using huge_facts(3) by (simp only: fround_def Let_def huge_facts(5) if_True)

text \<open>
  Claim C3. The claim says that for boxes whose minimum corner is componentwise less than
  or equal to their maximum corner, \<^verbatim>\<open>iou\<close> gives the same value in both argument orders, a
  value between 0 and 1, and 0 when the boxes do not intersect. For a box with finite
  coordinates whose area overflows, the two areas and the intersection area are infinite,
  the union area \<^verbatim>\<open>inf + inf - inf\<close> is NaN, which is not equal to 0.0, and \<^verbatim>\<open>iou\<close> returns
  NaN: a value that is not between 0 and 1 and not equal to itself, where the docstring
  promises a value in the range from 0.0 to 1.0 and 1.0 for perfect overlap.
\<close>

theorem iou_overflows_to_nan:
  "well_formed_f huge_box
   \<and> area_f binary64 huge_box = PosInf
   \<and> iou binary64 huge_box huge_box = Inr NaN
   \<and> \<not> fle (Finite 0) NaN \<and> \<not> fle NaN (Finite 1) \<and> \<not> feq NaN NaN"
proof -
  have wf: "well_formed_f huge_box"
    using huge_facts(1) by (simp add: well_formed_f_def huge_box_def box_f_def fle_def)
  have inter: "intersection_f huge_box huge_box = Some huge_box"
    using huge_facts(1)
    by (simp add: intersection_f_def intersects_f_def huge_box_def box_f_def py_max_def
        py_min_def fgt_def)
  have w: "width_f binary64 huge_box = Finite huge"
    by (simp add: width_f_def huge_box_def box_f_def fsub_def fround_huge)
  have h: "height_f binary64 huge_box = Finite huge"
    by (simp add: height_f_def huge_box_def box_f_def fsub_def fround_huge)
  have ar: "area_f binary64 huge_box = PosInf"
    by (simp only: area_f_def w h fmul.simps fround_huge_area)
  have "iou binary64 huge_box huge_box = Inr NaN"
    by (simp add: iou_def inter ar fsub_def feq_def fdiv_def)
  with wf ar show ?thesis
    by (simp add: fle_def feq_def)
qed

section \<open>Pattern piece area\<close>

text \<open>With fewer than three points the area is 0.\<close>

lemma get_area_short: "length (outline piece) < 3 \<Longrightarrow> get_area piece = 0"
  by (simp add: get_area_def)

text \<open>Otherwise the sum runs over the pairs of consecutive outline points only.\<close>

lemma get_area_consecutive:
  assumes "3 \<le> length (outline piece)"
  shows "get_area piece =
     \<bar>\<Sum>i \<leftarrow> [0 ..< length (outline piece) - 1].
         x (outline piece ! i) * y (outline piece ! (i + 1))
       - x (outline piece ! (i + 1)) * y (outline piece ! i)\<bar> / 2"
proof -
  have "(\<Sum>i \<leftarrow> [0 ..< length (outline piece) - 1].
           map fst (map to_tuple (outline piece)) ! i
             * map snd (map to_tuple (outline piece)) ! (i + 1)
           - map fst (map to_tuple (outline piece)) ! (i + 1)
             * map snd (map to_tuple (outline piece)) ! i)
      = (\<Sum>i \<leftarrow> [0 ..< length (outline piece) - 1].
           x (outline piece ! i) * y (outline piece ! (i + 1))
         - x (outline piece ! (i + 1)) * y (outline piece ! i))"
    by (rule arg_cong [where f = sum_list], rule map_cong) (auto simp: to_tuple_def)
  with assms show ?thesis
    by (simp add: get_area_def Let_def)
qed

text \<open>On an outline that repeats its first point at the end, the missing closing edge
  contributes nothing and \<^verbatim>\<open>get_area\<close> is the shoelace area.\<close>

lemma get_area_closed_outline:
  assumes len: "3 \<le> length (outline piece)"
    and closed: "last (outline piece) = hd (outline piece)"
  shows "get_area piece = shoelace_area (outline piece)"
proof -
  define ps where "ps = outline piece"
  define n where "n = length ps"
  have n: "3 \<le> n" using len by (simp add: n_def ps_def)
  have ne: "ps \<noteq> []" using n by (auto simp: n_def)
  have last0: "ps ! (n - 1) = ps ! 0"
    using closed ne by (simp add: ps_def [symmetric] n_def last_conv_nth hd_conv_nth)
  have "[0 ..< Suc (n - 1)] = [0 ..< n - 1] @ [n - 1]"
    by simp
  moreover have "Suc (n - 1) = n" using n by simp
  ultimately have split: "[0 ..< n] = [0 ..< n - 1] @ [n - 1]"
    by simp
  define f where "f = (\<lambda>i. x (ps ! i) * y (ps ! ((i + 1) mod n))
                          - x (ps ! ((i + 1) mod n)) * y (ps ! i))"
  define h where "h = (\<lambda>i. x (ps ! i) * y (ps ! (i + 1)) - x (ps ! (i + 1)) * y (ps ! i))"
  have inner: "(\<Sum>i \<leftarrow> [0 ..< n - 1]. f i) = (\<Sum>i \<leftarrow> [0 ..< n - 1]. h i)"
    by (rule arg_cong [where f = sum_list], rule map_cong) (auto simp: f_def h_def)
  have "(n - 1 + 1) mod n = 0" using n by simp
  then have closing: "f (n - 1) = 0"
    unfolding f_def using last0 by simp
  have "(\<Sum>i \<leftarrow> [0 ..< n]. f i) = (\<Sum>i \<leftarrow> [0 ..< n - 1]. f i) + f (n - 1)"
    by (subst split) simp
  then have "(\<Sum>i \<leftarrow> [0 ..< n]. f i) = (\<Sum>i \<leftarrow> [0 ..< n - 1]. h i)"
    using inner closing by simp
  then have "shoelace_area ps =
      \<bar>\<Sum>i \<leftarrow> [0 ..< n - 1]. x (ps ! i) * y (ps ! (i + 1)) - x (ps ! (i + 1)) * y (ps ! i)\<bar> / 2"
    unfolding shoelace_area_def Let_def n_def [symmetric] f_def h_def by simp
  then show ?thesis
    using get_area_consecutive [OF len] by (simp add: ps_def n_def)
qed

text \<open>
  Claim C1. The claim says that \<^verbatim>\<open>get_area\<close> is the shoelace area of the polygon whose
  vertices the outline lists, the closing edge from the last point back to the first
  included. The sum in \<^verbatim>\<open>get_area\<close> stops at the last consecutive pair: on the triangle
  (1,0), (2,0), (1,1), of area one half, it returns 1.
\<close>

theorem get_area_omits_closing_edge:
  "get_area (piece_of [pt 1 0, pt 2 0, pt 1 1]) = 1
   \<and> shoelace_area [pt 1 0, pt 2 0, pt 1 1] = 1 / 2"
  by (simp add: get_area_def shoelace_area_def piece_of_def pt_def to_tuple_def Let_def)

section \<open>Hexadecimal color strings\<close>

text \<open>A hexadecimal digit is neither whitespace, a sign, an underscore nor the letter of the
  \<^verbatim>\<open>0x\<close> prefix, and has a digit value below 16.\<close>

lemma hex_digit_props:
  assumes "is_hex_digit c"
  shows "\<not> is_space c \<and> c \<noteq> CHR ''+'' \<and> c \<noteq> CHR ''-'' \<and> c \<noteq> CHR ''_''
       \<and> c \<noteq> CHR ''x'' \<and> c \<noteq> CHR ''X'' \<and> (\<exists>d < 16. digit_value c = Some d)"
  using assms unfolding is_hex_digit_def
  by (auto simp: is_space_def digit_value_def)

text \<open>Two hexadecimal digits parse to a byte.\<close>

lemma int16_two_hex_digits:
  assumes "is_hex_digit c1" "is_hex_digit c2"
  shows "\<exists>n. int16 [c1, c2] = Inr n \<and> 0 \<le> n \<and> n \<le> 255"
proof -
  from hex_digit_props [OF assms(1)] obtain d1 where
    c1: "\<not> is_space c1" "c1 \<noteq> CHR ''+''" "c1 \<noteq> CHR ''-''" "c1 \<noteq> CHR ''_''"
    and d1: "d1 < 16" "digit_value c1 = Some d1" by blast
  from hex_digit_props [OF assms(2)] obtain d2 where
    c2: "\<not> is_space c2" "c2 \<noteq> CHR ''x''" "c2 \<noteq> CHR ''X''" "c2 \<noteq> CHR ''_''"
    and d2: "d2 < 16" "digit_value c2 = Some d2" by blast
  have "int16 [c1, c2] = Inr (int (16 * d1 + d2))"
    using c1 c2 d1(2) d2(2) by (simp add: int16_def skip_sign_def skip_prefix_def)
  moreover have "int (16 * d1 + d2) \<le> 255" using d1(1) d2(1) by simp
  ultimately show ?thesis by simp
qed

lemma Color_init_in_range:
  assumes "0 \<le> rv" "rv \<le> 1" "0 \<le> gv" "gv \<le> 1" "0 \<le> bv" "bv \<le> 1" "0 \<le> av" "av \<le> 1"
  shows "Color_init rv gv bv av = Inr \<lparr>r = rv, g = gv, b = bv, a = av\<rparr>"
  using assms by (simp add: Color_init_def post_init_def)

lemma byte_channel: "0 \<le> n \<Longrightarrow> n \<le> 255 \<Longrightarrow> 0 \<le> real_of_int n / 255 \<and> real_of_int n / 255 \<le> 1"
  by simp

text \<open>Any other length than 3, 6 or 8 after the leading \<^verbatim>\<open>#\<close> characters raises.\<close>

lemma from_hex_bad_length:
  "length (lstrip_hash s) \<notin> {3, 6, 8} \<Longrightarrow> from_hex s = Inl ValueError"
  by (simp add: from_hex_def Let_def)

lemma lstrip_hash_no_leading_hash:
  "lstrip_hash s = [] \<or> hd (lstrip_hash s) \<noteq> CHR ''#''"
  unfolding lstrip_hash_def by (metis (mono_tags, lifting) hd_dropWhile)

text \<open>On hexadecimal digits the three forms return the parsed bytes divided by 255, with each
  digit doubled in the short form and alpha 1 unless the fourth byte is given.\<close>

lemma from_hex_RGB:
  assumes "lstrip_hash s = [c0, c1, c2]" "is_hex_digit c0" "is_hex_digit c1" "is_hex_digit c2"
  shows "\<exists>ri gi bi. int16 [c0, c0] = Inr ri \<and> int16 [c1, c1] = Inr gi \<and> int16 [c2, c2] = Inr bi
          \<and> from_hex s = Inr \<lparr>r = real_of_int ri / 255, g = real_of_int gi / 255,
                               b = real_of_int bi / 255, a = 1\<rparr>
          \<and> 0 \<le> ri \<and> ri \<le> 255 \<and> 0 \<le> gi \<and> gi \<le> 255 \<and> 0 \<le> bi \<and> bi \<le> 255"
proof -
  from int16_two_hex_digits [OF assms(2) assms(2)] obtain ri
    where ri: "int16 [c0, c0] = Inr ri" "0 \<le> ri" "ri \<le> 255" by blast
  from int16_two_hex_digits [OF assms(3) assms(3)] obtain gi
    where gi: "int16 [c1, c1] = Inr gi" "0 \<le> gi" "gi \<le> 255" by blast
  from int16_two_hex_digits [OF assms(4) assms(4)] obtain bi
    where bi: "int16 [c2, c2] = Inr bi" "0 \<le> bi" "bi \<le> 255" by blast
  have "from_hex s = Color_init (real_of_int ri / 255) (real_of_int gi / 255) (real_of_int bi / 255) 1"
    using assms(1) ri(1) gi(1) bi(1)
    by (simp add: from_hex_def Let_def bindE_def numeral_2_eq_2)
  also have "\<dots> = Inr \<lparr>r = real_of_int ri / 255, g = real_of_int gi / 255,
                               b = real_of_int bi / 255, a = 1\<rparr>"
    using ri gi bi by (intro Color_init_in_range) simp_all
  finally show ?thesis using ri gi bi by blast
qed


lemma from_hex_RRGGBB:
  assumes "lstrip_hash s = [c0, c1, c2, c3, c4, c5]" "list_all is_hex_digit (lstrip_hash s)"
  shows "\<exists>ri gi bi. int16 [c0, c1] = Inr ri \<and> int16 [c2, c3] = Inr gi \<and> int16 [c4, c5] = Inr bi
          \<and> from_hex s = Inr \<lparr>r = real_of_int ri / 255, g = real_of_int gi / 255,
                               b = real_of_int bi / 255, a = 1\<rparr>
          \<and> 0 \<le> ri \<and> ri \<le> 255 \<and> 0 \<le> gi \<and> gi \<le> 255 \<and> 0 \<le> bi \<and> bi \<le> 255"
proof -
  have hex: "is_hex_digit c0" "is_hex_digit c1" "is_hex_digit c2" "is_hex_digit c3"
    "is_hex_digit c4" "is_hex_digit c5"
    using assms by simp_all
  from int16_two_hex_digits [OF hex(1) hex(2)] obtain ri
    where ri: "int16 [c0, c1] = Inr ri" "0 \<le> ri" "ri \<le> 255" by blast
  from int16_two_hex_digits [OF hex(3) hex(4)] obtain gi
    where gi: "int16 [c2, c3] = Inr gi" "0 \<le> gi" "gi \<le> 255" by blast
  from int16_two_hex_digits [OF hex(5) hex(6)] obtain bi
    where bi: "int16 [c4, c5] = Inr bi" "0 \<le> bi" "bi \<le> 255" by blast
  have "from_hex s = Color_init (real_of_int ri / 255) (real_of_int gi / 255) (real_of_int bi / 255) 1"
    using assms(1) ri(1) gi(1) bi(1)
    by (simp add: from_hex_def Let_def bindE_def slice_def)
  also have "\<dots> = Inr \<lparr>r = real_of_int ri / 255, g = real_of_int gi / 255,
                               b = real_of_int bi / 255, a = 1\<rparr>"
    using ri gi bi by (intro Color_init_in_range) simp_all
  finally show ?thesis using ri gi bi by blast
qed

lemma from_hex_RRGGBBAA:
  assumes "lstrip_hash s = [c0, c1, c2, c3, c4, c5, c6, c7]"
    "list_all is_hex_digit (lstrip_hash s)"
  shows "\<exists>ri gi bi ai. int16 [c0, c1] = Inr ri \<and> int16 [c2, c3] = Inr gi
          \<and> int16 [c4, c5] = Inr bi \<and> int16 [c6, c7] = Inr ai
          \<and> from_hex s = Inr \<lparr>r = real_of_int ri / 255, g = real_of_int gi / 255,
                               b = real_of_int bi / 255, a = real_of_int ai / 255\<rparr>
          \<and> 0 \<le> ri \<and> ri \<le> 255 \<and> 0 \<le> gi \<and> gi \<le> 255 \<and> 0 \<le> bi \<and> bi \<le> 255
          \<and> 0 \<le> ai \<and> ai \<le> 255"
proof -
  have hex: "is_hex_digit c0" "is_hex_digit c1" "is_hex_digit c2" "is_hex_digit c3"
    "is_hex_digit c4" "is_hex_digit c5" "is_hex_digit c6" "is_hex_digit c7"
    using assms by simp_all
  from int16_two_hex_digits [OF hex(1) hex(2)] obtain ri
    where ri: "int16 [c0, c1] = Inr ri" "0 \<le> ri" "ri \<le> 255" by blast
  from int16_two_hex_digits [OF hex(3) hex(4)] obtain gi
    where gi: "int16 [c2, c3] = Inr gi" "0 \<le> gi" "gi \<le> 255" by blast
  from int16_two_hex_digits [OF hex(5) hex(6)] obtain bi
    where bi: "int16 [c4, c5] = Inr bi" "0 \<le> bi" "bi \<le> 255" by blast
  from int16_two_hex_digits [OF hex(7) hex(8)] obtain ai
    where ai: "int16 [c6, c7] = Inr ai" "0 \<le> ai" "ai \<le> 255" by blast
  have "from_hex s = Color_init (real_of_int ri / 255) (real_of_int gi / 255)
          (real_of_int bi / 255) (real_of_int ai / 255)"
    using assms(1) ri(1) gi(1) bi(1) ai(1)
    by (simp add: from_hex_def Let_def bindE_def slice_def)
  also have "\<dots> = Inr \<lparr>r = real_of_int ri / 255, g = real_of_int gi / 255,
                               b = real_of_int bi / 255, a = real_of_int ai / 255\<rparr>"
    using ri gi bi ai by (intro Color_init_in_range) simp_all
  finally show ?thesis using ri gi bi ai by blast
qed

lemma list_of_length_3: "length zs = 3 \<Longrightarrow> \<exists>c0 c1 c2. zs = [c0, c1, c2]"
  by (auto simp: numeral_3_eq_3 length_Suc_conv)

lemma list_of_length_6: "length zs = 6 \<Longrightarrow> \<exists>c0 c1 c2 c3 c4 c5. zs = [c0, c1, c2, c3, c4, c5]"
proof -
  assume "length zs = 6"
  then have "length zs = Suc (Suc (Suc (Suc (Suc (Suc 0)))))" by simp
  then show ?thesis by (auto simp: length_Suc_conv)
qed

lemma list_of_length_8:
  "length zs = 8 \<Longrightarrow> \<exists>c0 c1 c2 c3 c4 c5 c6 c7. zs = [c0, c1, c2, c3, c4, c5, c6, c7]"
proof -
  assume "length zs = 8"
  then have "length zs = Suc (Suc (Suc (Suc (Suc (Suc (Suc (Suc 0)))))))" by simp
  then show ?thesis by (auto simp: length_Suc_conv)
qed

text \<open>A string that is valid in the sense of the specification yields a color with every
  channel between 0 and 1: the range check of \<^verbatim>\<open>__post_init__\<close> does not fire.\<close>

lemma from_hex_valid_in_range:
  assumes "spec_valid_hex s"
  shows "\<exists>c. from_hex s = Inr c \<and> 0 \<le> r c \<and> r c \<le> 1 \<and> 0 \<le> g c \<and> g c \<le> 1
            \<and> 0 \<le> b c \<and> b c \<le> 1 \<and> 0 \<le> a c \<and> a c \<le> 1"
proof -
  from assms have hex: "list_all is_hex_digit (lstrip_hash s)"
    and len: "length (lstrip_hash s) = 3 \<or> length (lstrip_hash s) = 6
              \<or> length (lstrip_hash s) = 8"
    by (auto simp: spec_valid_hex_def)
  from len show ?thesis
  proof (elim disjE)
    assume "length (lstrip_hash s) = 3"
    then obtain c0 c1 c2 where eq: "lstrip_hash s = [c0, c1, c2]"
      using list_of_length_3 by blast
    with hex have "is_hex_digit c0" "is_hex_digit c1" "is_hex_digit c2" by simp_all
    from from_hex_RGB [OF eq this] show ?thesis by auto
  next
    assume "length (lstrip_hash s) = 6"
    then obtain c0 c1 c2 c3 c4 c5 where eq: "lstrip_hash s = [c0, c1, c2, c3, c4, c5]"
      using list_of_length_6 by blast
    from from_hex_RRGGBB [OF eq hex] show ?thesis by auto
  next
    assume "length (lstrip_hash s) = 8"
    then obtain c0 c1 c2 c3 c4 c5 c6 c7
      where eq: "lstrip_hash s = [c0, c1, c2, c3, c4, c5, c6, c7]"
      using list_of_length_8 by blast
    from from_hex_RRGGBBAA [OF eq hex] show ?thesis by auto
  qed
qed

text \<open>
  Claim C4. The claim says that \<^verbatim>\<open>from_hex\<close> raises ValueError if and only if the string
  left after the leading \<^verbatim>\<open>#\<close> characters has a length other than 3, 6 or 8 or contains a
  character that is not a hexadecimal digit. The two-character slices go to
  \<^verbatim>\<open>int(_, 16)\<close>, which accepts a sign: \<^verbatim>\<open>+F0000\<close> contains \<^verbatim>\<open>+\<close> and is parsed to the
  color (15/255, 0, 0, 1) with no error.
\<close>

theorem from_hex_accepts_signed_pair:
  "\<not> spec_valid_hex ''+F0000''
   \<and> from_hex ''+F0000'' = Inr \<lparr>r = 15 / 255, g = 0, b = 0, a = 1\<rparr>"
  by (simp add: spec_valid_hex_def lstrip_hash_def is_hex_digit_def from_hex_def Let_def
      bindE_def slice_def int16_def skip_sign_def skip_prefix_def is_space_def
      digit_value_def Color_init_def post_init_def)

section \<open>Layout results\<close>

text \<open>Once a field has reported an error, validation cannot end without one.\<close>

lemma failed_is_sticky: "validate_fields fs kw vals True \<noteq> (vals', False)"
proof (induction fs arbitrary: vals)
  case Nil
  show ?case by simp
next
  case (Cons f fs)
  obtain n ok where f: "f = (n, ok)" by (cases f)
  show ?case
    using Cons.IH by (simp add: f split: option.split)
qed

text \<open>A validation that ends without error has found each field present and within its
  bounds, and stored what the field's validators returned.\<close>

lemma validate_fields_step:
  assumes "validate_fields ((n, ok) # rest) kw vals failed = (vals', False)"
  shows "\<exists>v. kw n = Some v \<and> ok v
           \<and> validate_fields rest kw (vals(n \<mapsto> run_validators n v vals)) failed = (vals', False)"
proof (cases "kw n")
  case None
  with assms show ?thesis by (simp add: failed_is_sticky)
next
  case (Some v)
  with assms show ?thesis by (cases "ok v") (simp_all add: failed_is_sticky)
qed

text \<open>The six numeric fields in turn: when \<^verbatim>\<open>waste_percentage\<close> is reached,
  \<^verbatim>\<open>utilization_rate\<close> is among the validated values.\<close>

lemma validate_numeric_fields:
  assumes "validate_fields numeric_fields kw Map.empty failed = (vals, False)"
  shows "\<exists>fl ur wp au av ct.
           kw ''fabric_length_used'' = Some fl \<and> kw ''utilization_rate'' = Some ur
         \<and> kw ''waste_percentage'' = Some wp \<and> kw ''total_area_used'' = Some au
         \<and> kw ''total_area_available'' = Some av \<and> kw ''computation_time'' = Some ct
         \<and> 0 < fl \<and> 0 \<le> ur \<and> ur \<le> 1 \<and> 0 \<le> wp \<and> wp \<le> 100 \<and> 0 < au \<and> 0 < av \<and> 0 \<le> ct
         \<and> vals ''fabric_length_used'' = Some fl \<and> vals ''utilization_rate'' = Some ur
         \<and> vals ''waste_percentage'' = Some ((1 - ur) * 100) \<and> vals ''total_area_used'' = Some au
         \<and> vals ''total_area_available'' = Some av \<and> vals ''computation_time'' = Some ct"
proof -
  note a0 = assms [unfolded numeric_fields_def]
  from validate_fields_step [OF a0] obtain fl where
    fl: "kw ''fabric_length_used'' = Some fl" "0 < fl" and
    a1: "validate_fields [(''utilization_rate'', \<lambda>v. 0 \<le> v \<and> v \<le> 1),
      (''waste_percentage'', \<lambda>v. 0 \<le> v \<and> v \<le> 100),
      (''total_area_used'', \<lambda>v. 0 < v),
      (''total_area_available'', \<lambda>v. 0 < v),
      (''computation_time'', \<lambda>v. 0 \<le> v)] kw [''fabric_length_used'' \<mapsto> fl] failed = (vals, False)"
    by (auto simp: run_validators_def)
  from validate_fields_step [OF a1] obtain ur where
    ur: "kw ''utilization_rate'' = Some ur" "0 \<le> ur" "ur \<le> 1" and
    a2: "validate_fields [(''waste_percentage'', \<lambda>v. 0 \<le> v \<and> v \<le> 100),
      (''total_area_used'', \<lambda>v. 0 < v),
      (''total_area_available'', \<lambda>v. 0 < v),
      (''computation_time'', \<lambda>v. 0 \<le> v)] kw
        [''fabric_length_used'' \<mapsto> fl, ''utilization_rate'' \<mapsto> ur] failed = (vals, False)"
    by (auto simp: run_validators_def)
  from validate_fields_step [OF a2] obtain wp where
    wp: "kw ''waste_percentage'' = Some wp" "0 \<le> wp" "wp \<le> 100" and
    a3: "validate_fields [(''total_area_used'', \<lambda>v. 0 < v),
      (''total_area_available'', \<lambda>v. 0 < v),
      (''computation_time'', \<lambda>v. 0 \<le> v)] kw
        [''fabric_length_used'' \<mapsto> fl, ''utilization_rate'' \<mapsto> ur,
         ''waste_percentage'' \<mapsto> (1 - ur) * 100] failed = (vals, False)"
    by (auto simp: run_validators_def calculate_waste_def)
  from validate_fields_step [OF a3] obtain au where
    au: "kw ''total_area_used'' = Some au" "0 < au" and
    a4: "validate_fields [(''total_area_available'', \<lambda>v. 0 < v),
      (''computation_time'', \<lambda>v. 0 \<le> v)] kw
        [''fabric_length_used'' \<mapsto> fl, ''utilization_rate'' \<mapsto> ur,
         ''waste_percentage'' \<mapsto> (1 - ur) * 100, ''total_area_used'' \<mapsto> au] failed = (vals, False)"
    by (auto simp: run_validators_def)
  from validate_fields_step [OF a4] obtain av where
    av: "kw ''total_area_available'' = Some av" "0 < av" and
    a5: "validate_fields [(''computation_time'', \<lambda>v. 0 \<le> v)] kw
        [''fabric_length_used'' \<mapsto> fl, ''utilization_rate'' \<mapsto> ur,
         ''waste_percentage'' \<mapsto> (1 - ur) * 100, ''total_area_used'' \<mapsto> au,
         ''total_area_available'' \<mapsto> av] failed = (vals, False)"
    by (auto simp: run_validators_def)
  from validate_fields_step [OF a5] obtain ct where
    ct: "kw ''computation_time'' = Some ct" "0 \<le> ct" and
    a6: "validate_fields [] kw
        [''fabric_length_used'' \<mapsto> fl, ''utilization_rate'' \<mapsto> ur,
         ''waste_percentage'' \<mapsto> (1 - ur) * 100, ''total_area_used'' \<mapsto> au,
         ''total_area_available'' \<mapsto> av, ''computation_time'' \<mapsto> ct] failed = (vals, False)"
    by (auto simp: run_validators_def)
  from a6 have vals: "vals = [''fabric_length_used'' \<mapsto> fl, ''utilization_rate'' \<mapsto> ur,
         ''waste_percentage'' \<mapsto> (1 - ur) * 100, ''total_area_used'' \<mapsto> au,
         ''total_area_available'' \<mapsto> av, ''computation_time'' \<mapsto> ct]"
    by simp
  show ?thesis
    using fl ur wp au av ct by (simp add: vals)
qed

text \<open>
  Claim C9. Every successfully constructed \<^verbatim>\<open>LayoutResult\<close> has
  \<^verbatim>\<open>waste_percentage = (1 - utilization_rate) * 100\<close>, where the utilization rate is the
  one the caller supplied: the validator \<^verbatim>\<open>calculate_waste\<close> replaces the supplied waste
  percentage whenever \<^verbatim>\<open>utilization_rate\<close> is among the validated values.
\<close>

theorem layout_result_waste_invariant:
  assumes "LayoutResult_init others_valid kw = Inr res"
  shows "waste_percentage res = (1 - utilization_rate res) * 100
       \<and> kw ''utilization_rate'' = Some (utilization_rate res)
       \<and> (\<forall>v vals u. vals ''utilization_rate'' = Some u \<longrightarrow> calculate_waste v vals = (1 - u) * 100)"
proof -
  obtain vals failed
    where vf: "validate_fields numeric_fields kw Map.empty (\<not> others_valid) = (vals, failed)"
    by (cases "validate_fields numeric_fields kw Map.empty (\<not> others_valid)")
  have nf: "\<not> failed"
    using assms by (auto simp: LayoutResult_init_def vf)
  with vf have "validate_fields numeric_fields kw Map.empty (\<not> others_valid) = (vals, False)"
    by simp
  from validate_numeric_fields [OF this] obtain fl ur au av ct where
    "kw ''utilization_rate'' = Some ur"
    "vals ''fabric_length_used'' = Some fl" "vals ''utilization_rate'' = Some ur"
    "vals ''waste_percentage'' = Some ((1 - ur) * 100)" "vals ''total_area_used'' = Some au"
    "vals ''total_area_available'' = Some av" "vals ''computation_time'' = Some ct"
    by blast
  with assms nf have "res = \<lparr>fabric_length_used = fl, utilization_rate = ur,
      waste_percentage = (1 - ur) * 100, total_area_used = au, total_area_available = av,
      computation_time = ct\<rparr>"
    by (simp add: LayoutResult_init_def vf)
  with \<open>kw ''utilization_rate'' = Some ur\<close> show ?thesis
    by (simp add: calculate_waste_def)
qed

theorem layout_result_waste_invariant_witness:
  "LayoutResult_init True
     [''fabric_length_used'' \<mapsto> 120, ''utilization_rate'' \<mapsto> 7 / 10,
      ''waste_percentage'' \<mapsto> 10, ''total_area_used'' \<mapsto> 12600,
      ''total_area_available'' \<mapsto> 18000, ''computation_time'' \<mapsto> 0]
   = Inr \<lparr>fabric_length_used = 120, utilization_rate = 7 / 10, waste_percentage = 30,
          total_area_used = 12600, total_area_available = 18000, computation_time = 0\<rparr>"
proof -
  let ?kw = "[''fabric_length_used'' \<mapsto> 120, ''utilization_rate'' \<mapsto> 7 / 10,
      ''waste_percentage'' \<mapsto> 10, ''total_area_used'' \<mapsto> 12600,
      ''total_area_available'' \<mapsto> 18000, ''computation_time'' \<mapsto> (0::real)]"
  have "\<exists>res. LayoutResult_init True ?kw = Inr res \<and> fabric_length_used res = 120
          \<and> total_area_used res = 12600 \<and> total_area_available res = 18000
          \<and> computation_time res = 0"
    by (simp add: LayoutResult_init_def numeric_fields_def run_validators_def
        calculate_waste_def)
  then obtain res where res: "LayoutResult_init True ?kw = Inr res"
    "fabric_length_used res = 120" "total_area_used res = 12600"
    "total_area_available res = 18000" "computation_time res = 0"
    by blast
  from layout_result_waste_invariant [OF res(1)]
  have "waste_percentage res = 30" "utilization_rate res = 7 / 10"
    by simp_all
  with res show ?thesis by simp
qed

section \<open>Unit conversion of measurements\<close>

text \<open>A field holding an enum member or the dictionary is skipped by the loop.\<close>

lemma convert_fields_skip:
  "convert_fields f ((n, FUnit u) # rest) c = convert_fields f rest c"
  "convert_fields f ((n, FGender ge) # rest) c = convert_fields f rest c"
  "convert_fields f ((n, FSize sz) # rest) c = convert_fields f rest c"
  "convert_fields f ((n, FDict d) # rest) c = convert_fields f rest c"
  by simp_all

lemma update_unchanged:
  "chest_update (\<lambda>old. old) c = c"
  "waist_update (\<lambda>old. old) c = c"
  "hip_update (\<lambda>old. old) c = c"
  "shoulder_width_update (\<lambda>old. old) c = c"
  "sleeve_length_update (\<lambda>old. old) c = c"
  "body_length_update (\<lambda>old. old) c = c"
  "inseam_update (\<lambda>old. old) c = c"
  "neck_update (\<lambda>old. old) c = c"
  "bust_update (\<lambda>old. old) c = c"
  "under_bust_update (\<lambda>old. old) c = c"
  "arm_length_update (\<lambda>old. old) c = c"
  "bicep_update (\<lambda>old. old) c = c"
  "wrist_update (\<lambda>old. old) c = c"
  "thigh_update (\<lambda>old. old) c = c"
  "calf_update (\<lambda>old. old) c = c"
  "ankle_update (\<lambda>old. old) c = c"
  by (rule Measurement.equality; simp)+

text \<open>One loop iteration on an optional float field: the field of the copy is replaced by
  the scaled value when the field of the original is set, and kept otherwise.\<close>

lemma convert_fields_optional:
  "\<And>v rest c. convert_fields f ((''chest'', opt_num v) # rest) c =
     convert_fields f rest (chest_update (\<lambda>old. case_option old (\<lambda>k. Some (k * f)) v) c)"
  "\<And>v rest c. convert_fields f ((''waist'', opt_num v) # rest) c =
     convert_fields f rest (waist_update (\<lambda>old. case_option old (\<lambda>k. Some (k * f)) v) c)"
  "\<And>v rest c. convert_fields f ((''hip'', opt_num v) # rest) c =
     convert_fields f rest (hip_update (\<lambda>old. case_option old (\<lambda>k. Some (k * f)) v) c)"
  "\<And>v rest c. convert_fields f ((''shoulder_width'', opt_num v) # rest) c =
     convert_fields f rest (shoulder_width_update (\<lambda>old. case_option old (\<lambda>k. Some (k * f)) v) c)"
  "\<And>v rest c. convert_fields f ((''sleeve_length'', opt_num v) # rest) c =
     convert_fields f rest (sleeve_length_update (\<lambda>old. case_option old (\<lambda>k. Some (k * f)) v) c)"
  "\<And>v rest c. convert_fields f ((''body_length'', opt_num v) # rest) c =
     convert_fields f rest (body_length_update (\<lambda>old. case_option old (\<lambda>k. Some (k * f)) v) c)"
  "\<And>v rest c. convert_fields f ((''inseam'', opt_num v) # rest) c =
     convert_fields f rest (inseam_update (\<lambda>old. case_option old (\<lambda>k. Some (k * f)) v) c)"
  "\<And>v rest c. convert_fields f ((''neck'', opt_num v) # rest) c =
     convert_fields f rest (neck_update (\<lambda>old. case_option old (\<lambda>k. Some (k * f)) v) c)"
  "\<And>v rest c. convert_fields f ((''bust'', opt_num v) # rest) c =
     convert_fields f rest (bust_update (\<lambda>old. case_option old (\<lambda>k. Some (k * f)) v) c)"
  "\<And>v rest c. convert_fields f ((''under_bust'', opt_num v) # rest) c =
     convert_fields f rest (under_bust_update (\<lambda>old. case_option old (\<lambda>k. Some (k * f)) v) c)"
  "\<And>v rest c. convert_fields f ((''arm_length'', opt_num v) # rest) c =
     convert_fields f rest (arm_length_update (\<lambda>old. case_option old (\<lambda>k. Some (k * f)) v) c)"
  "\<And>v rest c. convert_fields f ((''bicep'', opt_num v) # rest) c =
     convert_fields f rest (bicep_update (\<lambda>old. case_option old (\<lambda>k. Some (k * f)) v) c)"
  "\<And>v rest c. convert_fields f ((''wrist'', opt_num v) # rest) c =
     convert_fields f rest (wrist_update (\<lambda>old. case_option old (\<lambda>k. Some (k * f)) v) c)"
  "\<And>v rest c. convert_fields f ((''thigh'', opt_num v) # rest) c =
     convert_fields f rest (thigh_update (\<lambda>old. case_option old (\<lambda>k. Some (k * f)) v) c)"
  "\<And>v rest c. convert_fields f ((''calf'', opt_num v) # rest) c =
     convert_fields f rest (calf_update (\<lambda>old. case_option old (\<lambda>k. Some (k * f)) v) c)"
  "\<And>v rest c. convert_fields f ((''ankle'', opt_num v) # rest) c =
     convert_fields f rest (ankle_update (\<lambda>old. case_option old (\<lambda>k. Some (k * f)) v) c)"
  by (simp_all add: opt_num_def setattr_num_def update_unchanged split: option.split)

lemma keep_or_scaled: "case_option v (\<lambda>k. Some (h k)) v = map_option h v"
  by (cases v) simp_all

text \<open>The whole loop over \<^verbatim>\<open>model_fields\<close>.\<close>

lemma convert_fields_model_fields:
  "convert_fields f (model_fields m) m =
     m\<lparr>chest := map_option (\<lambda>k. k * f) (chest m),
       waist := map_option (\<lambda>k. k * f) (waist m),
       hip := map_option (\<lambda>k. k * f) (hip m),
       shoulder_width := map_option (\<lambda>k. k * f) (shoulder_width m),
       sleeve_length := map_option (\<lambda>k. k * f) (sleeve_length m),
       body_length := map_option (\<lambda>k. k * f) (body_length m),
       inseam := map_option (\<lambda>k. k * f) (inseam m),
       neck := map_option (\<lambda>k. k * f) (neck m),
       bust := map_option (\<lambda>k. k * f) (bust m),
       under_bust := map_option (\<lambda>k. k * f) (under_bust m),
       arm_length := map_option (\<lambda>k. k * f) (arm_length m),
       bicep := map_option (\<lambda>k. k * f) (bicep m),
       wrist := map_option (\<lambda>k. k * f) (wrist m),
       thigh := map_option (\<lambda>k. k * f) (thigh m),
       calf := map_option (\<lambda>k. k * f) (calf m),
       ankle := map_option (\<lambda>k. k * f) (ankle m)\<rparr>"
  by (cases m)
    (simp add: model_fields_def convert_fields_optional convert_fields_skip keep_or_scaled
       del: convert_fields.simps(2))


text \<open>
  Claim C2. \<^verbatim>\<open>convert_to\<close> returns the measurement itself when its unit is the target unit.
  Otherwise it returns the measurement with the unit set to the target, every numeric field
  that is set and every custom entry multiplied by \<^verbatim>\<open>to_cm[u] / to_cm[t]\<close>, the unset fields
  left unset, and gender and size category unchanged; the factors to centimeters are 1 for
  cm, 0.1 for mm, 100 for m and 2.54 for in.
\<close>

theorem convert_to_scales_by_factor:
  "convert_to m t =
     (if unit m = t then m
      else m\<lparr>chest := map_option (\<lambda>k. k * (to_cm (unit m) / to_cm t)) (chest m),
          waist := map_option (\<lambda>k. k * (to_cm (unit m) / to_cm t)) (waist m),
          hip := map_option (\<lambda>k. k * (to_cm (unit m) / to_cm t)) (hip m),
          shoulder_width := map_option (\<lambda>k. k * (to_cm (unit m) / to_cm t)) (shoulder_width m),
          sleeve_length := map_option (\<lambda>k. k * (to_cm (unit m) / to_cm t)) (sleeve_length m),
          body_length := map_option (\<lambda>k. k * (to_cm (unit m) / to_cm t)) (body_length m),
          inseam := map_option (\<lambda>k. k * (to_cm (unit m) / to_cm t)) (inseam m),
          neck := map_option (\<lambda>k. k * (to_cm (unit m) / to_cm t)) (neck m),
          bust := map_option (\<lambda>k. k * (to_cm (unit m) / to_cm t)) (bust m),
          under_bust := map_option (\<lambda>k. k * (to_cm (unit m) / to_cm t)) (under_bust m),
          arm_length := map_option (\<lambda>k. k * (to_cm (unit m) / to_cm t)) (arm_length m),
          bicep := map_option (\<lambda>k. k * (to_cm (unit m) / to_cm t)) (bicep m),
          wrist := map_option (\<lambda>k. k * (to_cm (unit m) / to_cm t)) (wrist m),
          thigh := map_option (\<lambda>k. k * (to_cm (unit m) / to_cm t)) (thigh m),
          calf := map_option (\<lambda>k. k * (to_cm (unit m) / to_cm t)) (calf m),
          ankle := map_option (\<lambda>k. k * (to_cm (unit m) / to_cm t)) (ankle m),
          custom := map (\<lambda>(k, v). (k, v * (to_cm (unit m) / to_cm t))) (custom m),
          unit := t\<rparr>)
   \<and> unit (convert_to m t) = t
   \<and> gender (convert_to m t) = gender m
   \<and> size_category (convert_to m t) = size_category m
   \<and> map fst (custom (convert_to m t)) = map fst (custom m)
   \<and> to_cm CENTIMETERS = 1 \<and> to_cm MILLIMETERS = 1 / 10 \<and> to_cm METERS = 100
   \<and> to_cm INCHES = 254 / 100"
proof (cases "unit m = t")
  case True
  then show ?thesis by (simp add: convert_to_def)
next
  case False
  then show ?thesis
    by (simp add: convert_to_def Let_def convert_fields_model_fields case_prod_beta)
qed

theorem convert_to_scales_by_factor_witness:
  "convert_to
     \<lparr>chest = Some 100, waist = None, hip = None, shoulder_width = None, sleeve_length = None,
      body_length = None, inseam = Some 80, neck = None, bust = None, under_bust = None,
      arm_length = None, bicep = None, wrist = None, thigh = None, calf = None, ankle = None,
      unit = CENTIMETERS, gender = Some FEMALE, size_category = Some XL,
      custom = [(''rise'', 25)]\<rparr> MILLIMETERS
   = \<lparr>chest = Some 1000, waist = None, hip = None, shoulder_width = None, sleeve_length = None,
      body_length = None, inseam = Some 800, neck = None, bust = None, under_bust = None,
      arm_length = None, bicep = None, wrist = None, thigh = None, calf = None, ankle = None,
      unit = MILLIMETERS, gender = Some FEMALE, size_category = Some XL,
      custom = [(''rise'', 250)]\<rparr>"
  using convert_to_scales_by_factor [of
     "\<lparr>chest = Some 100, waist = None, hip = None, shoulder_width = None, sleeve_length = None,
      body_length = None, inseam = Some 80, neck = None, bust = None, under_bust = None,
      arm_length = None, bicep = None, wrist = None, thigh = None, calf = None, ankle = None,
      unit = CENTIMETERS, gender = Some FEMALE, size_category = Some XL,
      custom = [(''rise'', 25)]\<rparr>" MILLIMETERS]
  by simp

section \<open>The pattern generator\<close>

text \<open>
  Claim C5. For every design dictionary and every \<^verbatim>\<open>params\<close>, \<^verbatim>\<open>generate\<close> returns a pattern
  whose \<^verbatim>\<open>pieces\<close> are the same two pieces, \<^verbatim>\<open>front_panel\<close> of type \<^verbatim>\<open>front\<close> and
  \<^verbatim>\<open>back_panel\<close> of type \<^verbatim>\<open>back\<close>, each with the contour (0,0), (50,0), (50,70), (0,70) and
  one plain side seam; \<^verbatim>\<open>design_id\<close> is the \<^verbatim>\<open>id\<close> entry of the design when it has one and
  \<^verbatim>\<open>unknown\<close> otherwise; the metrics stored and returned by \<^verbatim>\<open>get_generation_metrics\<close>
  report 2 pieces, total area 7000.0, seam count 2 and complexity score 45.0.
\<close>

theorem generate_fixed_pattern:
  "\<exists>pattern self'.
     generate self (PDict design) params rand_id elapsed_ms = Inr (PDict pattern, self')
   \<and> map_of pattern ''pieces'' = Some (PList
        [PDict [(''id'', PStr ''front_panel''),
                (''type'', PStr ''front''),
                (''contour'', PList
                   [PDict [(''x'', PInt 0), (''y'', PInt 0)],
                    PDict [(''x'', PInt 50), (''y'', PInt 0)],
                    PDict [(''x'', PInt 50), (''y'', PInt 70)],
                    PDict [(''x'', PInt 0), (''y'', PInt 70)]]),
                (''seams'', PList
                   [PDict [(''id'', PStr ''side_seam''), (''type'', PStr ''plain''),
                           (''points'', PList [PList [PInt 50, PInt 0],
                                               PList [PInt 50, PInt 70]])]]),
                (''notches'', PList [])],
         PDict [(''id'', PStr ''back_panel''),
                (''type'', PStr ''back''),
                (''contour'', PList
                   [PDict [(''x'', PInt 0), (''y'', PInt 0)],
                    PDict [(''x'', PInt 50), (''y'', PInt 0)],
                    PDict [(''x'', PInt 50), (''y'', PInt 70)],
                    PDict [(''x'', PInt 0), (''y'', PInt 70)]]),
                (''seams'', PList
                   [PDict [(''id'', PStr ''side_seam''), (''type'', PStr ''plain''),
                           (''points'', PList [PList [PInt 0, PInt 0],
                                               PList [PInt 0, PInt 70]])]]),
                (''notches'', PList [])]])
   \<and> map_of pattern ''design_id''
       = Some (case map_of design ''id'' of Some v \<Rightarrow> v | None \<Rightarrow> PStr ''unknown'')
   \<and> (\<exists>ms. get_generation_metrics self' = PDict ms
          \<and> map_of ms ''num_pieces'' = Some (PInt 2)
          \<and> map_of ms ''total_area'' = Some (PFloat 7000)
          \<and> map_of ms ''seam_count'' = Some (PInt 2)
          \<and> map_of ms ''complexity_score'' = Some (PFloat 45))"
  by (simp add: generate_def bindE_def py_get_def Let_def xy_def get_generation_metrics_def
      split: option.split)

theorem generate_fixed_pattern_witness:
  "\<exists>pattern self'.
     generate FakePatternGenerator_init (PDict [(''id'', PStr ''dress_1'')]) PNone 1234 3
       = Inr (PDict pattern, self')
   \<and> map_of pattern ''design_id'' = Some (PStr ''dress_1'')
   \<and> map_of (metrics self') ''num_pieces'' = Some (PInt 2)"
  using generate_fixed_pattern
    [of FakePatternGenerator_init "[(''id'', PStr ''dress_1'')]" PNone 1234 3]
  by (auto simp: get_generation_metrics_def)

section \<open>The layout optimizer\<close>

text \<open>On a list of piece dictionaries the layout loop succeeds and places the piece with
  index \<open>j\<close> at \<open>x = 60 * j\<close>, \<open>y = 0\<close> with rotation 0.\<close>

lemma place_pieces_dicts:
  "place_pieces i (map PDict ds) =
     Inr (map (\<lambda>(j, d).
            PDict [(''piece_id'',
                      case map_of d ''id'' of Some v \<Rightarrow> v | None \<Rightarrow> PStr (''piece_'' @ str_nat j)),
                   (''position'', PDict [(''x'', PInt (int j * 60)), (''y'', PInt 0)]),
                   (''rotation'', PInt 0)])
          (zip [i ..< i + length ds] ds))"
proof (induction ds arbitrary: i)
  case Nil
  show ?case by simp
next
  case (Cons d ds)
  have "[i ..< Suc (i + length ds)] = i # [Suc i ..< Suc (i + length ds)]"
    by (rule upt_conv_Cons) simp
  then show ?case
    using Cons.IH [of "Suc i"]
    by (simp add: bindE_def py_get_def del: upt_Suc split: option.split)
qed

text \<open>The result of \<^verbatim>\<open>optimize\<close> on a pattern whose pieces, when present, are a list of
  dictionaries, and a fabric whose width, 150 when absent, is a nonzero number.\<close>

lemma optimize_returns:
  assumes pieces: "map_of pattern ''pieces'' = None \<and> ds = []
                   \<or> map_of pattern ''pieces'' = Some (PList (map PDict ds))"
    and width: "map_of fabric ''width'' = None \<and> w = 150
                \<or> (\<exists>v. map_of fabric ''width'' = Some v \<and> py_number v = Some w)"
    and nonzero: "w \<noteq> 0"
  shows "optimize self (PDict pattern) (PDict fabric) params u_util u_waste elapsed_ms =
     Inr (PDict
            [(''layout'', PList
                (map (\<lambda>(j, d).
                   PDict [(''piece_id'',
                             case map_of d ''id'' of Some v \<Rightarrow> v
                             | None \<Rightarrow> PStr (''piece_'' @ str_nat j)),
                          (''position'', PDict [(''x'', PInt (int j * 60)), (''y'', PInt 0)]),
                          (''rotation'', PInt 0)])
                 (zip [0 ..< length ds] ds))),
             (''fabric_length'', PFloat (real (length ds) * 60 / w * 100 + 50)),
             (''utilization'', PFloat (uniform 0.65 0.75 u_util)),
             (''waste_percentage'', PFloat (uniform 25 35 u_waste)),
             (''optimization_time_ms'', PInt elapsed_ms),
             (''metadata'', PDict
                [(''version'', PStr ''1.0.0-demo''),
                 (''optimized_by'', PStr ''FakeLayoutOptimizer''),
                 (''note'', PStr
                    ''DEMO ONLY - Not real optimization (no RL, no genetic algorithm)'')])],
          self\<lparr>last_optimization_time := elapsed_ms,
               optimization_history := optimization_history self @
                 [PDict
            [(''layout'', PList
                (map (\<lambda>(j, d).
                   PDict [(''piece_id'',
                             case map_of d ''id'' of Some v \<Rightarrow> v
                             | None \<Rightarrow> PStr (''piece_'' @ str_nat j)),
                          (''position'', PDict [(''x'', PInt (int j * 60)), (''y'', PInt 0)]),
                          (''rotation'', PInt 0)])
                 (zip [0 ..< length ds] ds))),
             (''fabric_length'', PFloat (real (length ds) * 60 / w * 100 + 50)),
             (''utilization'', PFloat (uniform 0.65 0.75 u_util)),
             (''waste_percentage'', PFloat (uniform 25 35 u_waste)),
             (''optimization_time_ms'', PInt elapsed_ms),
             (''metadata'', PDict
                [(''version'', PStr ''1.0.0-demo''),
                 (''optimized_by'', PStr ''FakeLayoutOptimizer''),
                 (''note'', PStr
                    ''DEMO ONLY - Not real optimization (no RL, no genetic algorithm)'')])]]\<rparr>)"
proof -
  have get_pieces: "py_get (PDict pattern) ''pieces'' (PList []) = Inr (PList (map PDict ds))"
    using pieces by (auto simp: py_get_def)
  have len: "py_len (PList (map PDict ds)) = Inr (length ds)"
    by (simp add: py_len_def)
  have iter: "py_iter (PList (map PDict ds)) = Inr (map PDict ds)"
    by (simp add: py_iter_def)
  have "\<exists>wv. py_get (PDict fabric) ''width'' (PInt 150) = Inr wv \<and> py_number wv = Some w"
    using width by (auto simp: py_get_def py_number_def)
  then obtain wv where get_width: "py_get (PDict fabric) ''width'' (PInt 150) = Inr wv"
    and wv: "py_number wv = Some w" by blast
  have ratio: "py_truediv (int (length ds) * 60) wv = Inr (real (length ds) * 60 / w)"
    using wv nonzero by (simp add: py_truediv_def truediv_def)
  show ?thesis
    unfolding optimize_def
    by (simp add: get_pieces len get_width iter place_pieces_dicts [of 0 ds, simplified] ratio
        bindE_def Let_def)
qed

text \<open>Outside these shapes \<^verbatim>\<open>optimize\<close> raises: a width of 0 divides by zero, a piece that
  is not a dictionary has no \<^verbatim>\<open>get\<close>, a width that is not a number cannot divide.\<close>

lemma optimize_raises:
  "optimize FakeLayoutOptimizer_init (PDict []) (PDict [(''width'', PInt 0)]) PNone 0 0 0
     = Inl ZeroDivisionError"
  "optimize FakeLayoutOptimizer_init (PDict [(''pieces'', PList [PInt 1])]) (PDict []) PNone 0 0 0
     = Inl AttributeError"
  "optimize FakeLayoutOptimizer_init (PDict []) (PDict [(''width'', PStr ''wide'')]) PNone 0 0 0
     = Inl TypeError"
  by (simp_all add: optimize_def bindE_def py_get_def py_len_def py_iter_def py_truediv_def
      py_number_def truediv_def)

text \<open>
  Claim C6. For every pattern dictionary (its \<^verbatim>\<open>pieces\<close>, when present, a list of piece
  dictionaries) and every fabric dictionary whose \<^verbatim>\<open>width\<close>, 150 when absent, is a nonzero
  number, \<^verbatim>\<open>optimize\<close> returns a layout that places the piece with index \<open>j\<close> at
  \<open>x = 60 * j\<close>, \<open>y = 0\<close> with rotation 0, reports
  \<^verbatim>\<open>fabric_length = ((num_pieces * 60) / width) * 100 + 50\<close>, a utilization between 0.65 and
  0.75 and a waste percentage between 25 and 35. The two random draws \<open>u_util\<close> and
  \<open>u_waste\<close> are values of \<^verbatim>\<open>random()\<close>, at least 0 and below 1.
\<close>

theorem optimize_places_pieces_in_a_row:
  assumes "map_of pattern ''pieces'' = None \<and> ds = []
           \<or> map_of pattern ''pieces'' = Some (PList (map PDict ds))"
    and "map_of fabric ''width'' = None \<and> w = 150
         \<or> (\<exists>v. map_of fabric ''width'' = Some v \<and> py_number v = Some w)"
    and "w \<noteq> 0"
    and "0 \<le> u_util" "u_util < 1" "0 \<le> u_waste" "u_waste < 1"
  shows "\<exists>result self' layout utilization waste.
     optimize self (PDict pattern) (PDict fabric) params u_util u_waste elapsed_ms
       = Inr (PDict result, self')
   \<and> map_of result ''layout'' = Some (PList layout)
   \<and> length layout = length ds
   \<and> (\<forall>j < length ds. \<exists>piece_id.
         layout ! j = PDict [(''piece_id'', piece_id),
                             (''position'', PDict [(''x'', PInt (60 * int j)), (''y'', PInt 0)]),
                             (''rotation'', PInt 0)])
   \<and> map_of result ''fabric_length'' = Some (PFloat (((real (length ds) * 60) / w) * 100 + 50))
   \<and> map_of result ''utilization'' = Some (PFloat utilization)
   \<and> 0.65 \<le> utilization \<and> utilization \<le> 0.75
   \<and> map_of result ''waste_percentage'' = Some (PFloat waste)
   \<and> 25 \<le> waste \<and> waste \<le> 35"
proof -
  have ut: "0.65 \<le> uniform 0.65 0.75 u_util" "uniform 0.65 0.75 u_util \<le> 0.75"
    using assms(4,5) by (simp_all add: uniform_def)
  have wa: "25 \<le> uniform 25 35 u_waste" "uniform 25 35 u_waste \<le> 35"
    using assms(6,7) by (simp_all add: uniform_def)
  show ?thesis
    unfolding optimize_returns [OF assms(1-3)]
    using ut wa by (simp add: mult.commute)
qed

theorem optimize_places_pieces_in_a_row_witness:
  "\<exists>result self'.
     optimize FakeLayoutOptimizer_init
        (PDict [(''pieces'', PList [PDict [(''id'', PStr ''front_panel'')], PDict []])])
        (PDict [(''width'', PInt 120)]) PNone (1 / 2) 0 7
       = Inr (PDict result, self')
   \<and> map_of result ''layout'' = Some (PList
        [PDict [(''piece_id'', PStr ''front_panel''),
                (''position'', PDict [(''x'', PInt 0), (''y'', PInt 0)]),
                (''rotation'', PInt 0)],
         PDict [(''piece_id'', PStr ''piece_1''),
                (''position'', PDict [(''x'', PInt 60), (''y'', PInt 0)]),
                (''rotation'', PInt 0)]])
   \<and> map_of result ''fabric_length'' = Some (PFloat 150)
   \<and> map_of result ''utilization'' = Some (PFloat (7 / 10))
   \<and> map_of result ''waste_percentage'' = Some (PFloat 25)"
  using optimize_places_pieces_in_a_row
    [of "[(''pieces'', PList [PDict [(''id'', PStr ''front_panel'')], PDict []])]"
        "[[(''id'', PStr ''front_panel'')], []]" "[(''width'', PInt 120)]" 120
        "1 / 2" 0 FakeLayoutOptimizer_init PNone 7]
  by (simp add: optimize_def bindE_def py_get_def py_len_def py_iter_def py_truediv_def
      py_number_def truediv_def uniform_def Let_def str_nat.simps)

section \<open>The mock API envelopes\<close>

text \<open>The endpoints that take no request dictionary always return a success envelope.\<close>

lemma constant_envelopes:
  "success_envelope (optimize_pattern papi pattern_id)"
  "success_envelope (get_pattern papi pattern_id)"
  "success_envelope (get_fabric_properties fapi fabric_id)"
  "success_envelope (api_get_optimization_history lapi)"
  by (simp_all add: success_envelope_def optimize_pattern_def get_pattern_def
      get_fabric_properties_def api_get_optimization_history_def Let_def)

text \<open>Whatever an endpoint returns is a success envelope.\<close>

lemma generate_pattern_envelope:
  "generate_pattern papi request rand_id elapsed_ms = Inr (env, papi') \<Longrightarrow> success_envelope env"
  by (auto simp: generate_pattern_def bindE_def success_envelope_def
      split: sum.splits prod.splits)

lemma simulate_draping_envelope:
  "api_simulate_draping fapi request rand_id elapsed_ms = Inr (env, fapi') \<Longrightarrow> success_envelope env"
  by (auto simp: api_simulate_draping_def bindE_def success_envelope_def
      split: sum.splits prod.splits)

lemma calculate_fit_envelope:
  "api_calculate_fit fapi request = Inr env \<Longrightarrow> success_envelope env"
  by (auto simp: api_calculate_fit_def bindE_def success_envelope_def split: sum.splits)

lemma optimize_layout_envelope:
  "optimize_layout lapi request u_util u_waste elapsed_ms = Inr (env, lapi') \<Longrightarrow> success_envelope env"
  by (auto simp: optimize_layout_def bindE_def success_envelope_def
      split: sum.splits prod.splits)

lemma evaluate_layout_envelope:
  "api_evaluate_layout lapi request u1 u2 u3 u4 = Inr env \<Longrightarrow> success_envelope env"
  by (auto simp: api_evaluate_layout_def bindE_def success_envelope_def split: sum.splits)

text \<open>On a request dictionary every endpoint but \<^verbatim>\<open>optimize_layout\<close> returns.\<close>

lemma py_get_dict: "\<exists>v. py_get (PDict d) key dflt = Inr v"
  by (simp add: py_get_def split: option.split)

lemma generate_pattern_returns:
  "\<exists>env papi'. generate_pattern papi (PDict d) rand_id elapsed_ms = Inr (env, papi')"
  by (simp add: generate_pattern_def generate_def bindE_def py_get_def Let_def
      split: option.split)

lemma simulate_draping_returns:
  "\<exists>env fapi'. api_simulate_draping fapi (PDict d) rand_id elapsed_ms = Inr (env, fapi')"
  by (simp add: api_simulate_draping_def bindE_def py_get_def split: option.split prod.split)

lemma calculate_fit_returns: "\<exists>env. api_calculate_fit fapi (PDict d) = Inr env"
  by (simp add: api_calculate_fit_def bindE_def py_get_def split: option.split)

lemma evaluate_layout_returns: "\<exists>env. api_evaluate_layout lapi (PDict d) u1 u2 u3 u4 = Inr env"
  by (simp add: api_evaluate_layout_def bindE_def py_get_def split: option.split)

text \<open>\<^verbatim>\<open>optimize_layout\<close> on a request dictionary passes the exception of the optimizer on,
  and wraps its result otherwise.\<close>

lemma optimize_layout_follows_optimize:
  "(case optimize (optimizer lapi)
           (case map_of d ''pattern'' of Some v \<Rightarrow> v | None \<Rightarrow> PDict [])
           (case map_of d ''fabric'' of Some v \<Rightarrow> v | None \<Rightarrow> PDict [])
           (case map_of d ''params'' of Some v \<Rightarrow> v | None \<Rightarrow> PDict [])
           u_util u_waste elapsed_ms of
      Inl e \<Rightarrow> optimize_layout lapi (PDict d) u_util u_waste elapsed_ms = Inl e
    | Inr (result, opt) \<Rightarrow>
        (\<exists>env. optimize_layout lapi (PDict d) u_util u_waste elapsed_ms
                 = Inr (env, lapi\<lparr>optimizer := opt\<rparr>)
             \<and> success_envelope env))"
  by (simp add: optimize_layout_def bindE_def py_get_def success_envelope_def
      split: option.split sum.split prod.split)

text \<open>
  Claim C8, as the code has it. The claim says that every endpoint returns a success
  envelope on every input. \<^verbatim>\<open>optimize_layout\<close> does not: it has no exception handler, and a
  request whose fabric width is 0 makes the optimizer divide by zero, so the endpoint raises
  ZeroDivisionError and returns no envelope.
\<close>

theorem optimize_layout_zero_width_raises:
  "optimize_layout MockLayoutAPI_init (PDict [(''fabric'', PDict [(''width'', PInt 0)])]) 0 0 0
     = Inl ZeroDivisionError"
  by (simp add: optimize_layout_def optimize_def bindE_def py_get_def py_len_def py_iter_def
      py_truediv_def py_number_def truediv_def MockLayoutAPI_init_def)


text \<open>
  Claim C8, amended. On every request dictionary, every public endpoint method of the three
  mock APIs other than \<^verbatim>\<open>optimize_layout\<close> returns an envelope whose \<^verbatim>\<open>success\<close> entry is
  True and whose \<^verbatim>\<open>meta\<close> entry contains the version \<^verbatim>\<open>1.0.0-demo\<close>;
  \<^verbatim>\<open>optimize_layout\<close> returns such an envelope when the optimizer returns and raises the
  optimizer's exception otherwise. On any input, whatever an endpoint returns is such an
  envelope: none has \<^verbatim>\<open>success\<close> False or an \<^verbatim>\<open>error\<close> entry.
\<close>

theorem mock_endpoints_success_envelope:
  "(\<exists>env papi'. generate_pattern papi (PDict d) rand_id elapsed_ms = Inr (env, papi')
        \<and> success_envelope env)
   \<and> success_envelope (optimize_pattern papi pattern_id)
   \<and> success_envelope (get_pattern papi pattern_id)
   \<and> (\<exists>env fapi'. api_simulate_draping fapi (PDict d) rand_id elapsed_ms = Inr (env, fapi')
        \<and> success_envelope env)
   \<and> (\<exists>env. api_calculate_fit fapi (PDict d) = Inr env \<and> success_envelope env)
   \<and> success_envelope (get_fabric_properties fapi fabric_id)
   \<and> (\<exists>env. api_evaluate_layout lapi (PDict d) u1 u2 u3 u4 = Inr env \<and> success_envelope env)
   \<and> success_envelope (api_get_optimization_history lapi)
   \<and> (case optimize (optimizer lapi)
              (case map_of d ''pattern'' of Some v \<Rightarrow> v | None \<Rightarrow> PDict [])
              (case map_of d ''fabric'' of Some v \<Rightarrow> v | None \<Rightarrow> PDict [])
              (case map_of d ''params'' of Some v \<Rightarrow> v | None \<Rightarrow> PDict [])
              u_util u_waste elapsed_ms of
         Inl e \<Rightarrow> optimize_layout lapi (PDict d) u_util u_waste elapsed_ms = Inl e
       | Inr (result, opt) \<Rightarrow>
           (\<exists>env. optimize_layout lapi (PDict d) u_util u_waste elapsed_ms
                    = Inr (env, lapi\<lparr>optimizer := opt\<rparr>)
                \<and> success_envelope env))
   \<and> (\<forall>env papi'. generate_pattern papi request rand_id elapsed_ms = Inr (env, papi')
         \<longrightarrow> success_envelope env)
   \<and> (\<forall>env fapi'. api_simulate_draping fapi request rand_id elapsed_ms = Inr (env, fapi')
         \<longrightarrow> success_envelope env)
   \<and> (\<forall>env. api_calculate_fit fapi request = Inr env \<longrightarrow> success_envelope env)
   \<and> (\<forall>env lapi'. optimize_layout lapi request u_util u_waste elapsed_ms = Inr (env, lapi')
         \<longrightarrow> success_envelope env)
   \<and> (\<forall>env. api_evaluate_layout lapi request u1 u2 u3 u4 = Inr env \<longrightarrow> success_envelope env)"
proof -
  have gp: "\<exists>env papi'. generate_pattern papi (PDict d) rand_id elapsed_ms = Inr (env, papi')
        \<and> success_envelope env"
    using generate_pattern_returns [of papi d rand_id elapsed_ms] generate_pattern_envelope
    by blast
  have sd: "\<exists>env fapi'. api_simulate_draping fapi (PDict d) rand_id elapsed_ms = Inr (env, fapi')
        \<and> success_envelope env"
    using simulate_draping_returns [of fapi d rand_id elapsed_ms] simulate_draping_envelope
    by blast
  have cf: "\<exists>env. api_calculate_fit fapi (PDict d) = Inr env \<and> success_envelope env"
    using calculate_fit_returns [of fapi d] calculate_fit_envelope by blast
  have el: "\<exists>env. api_evaluate_layout lapi (PDict d) u1 u2 u3 u4 = Inr env \<and> success_envelope env"
    using evaluate_layout_returns [of lapi d u1 u2 u3 u4] evaluate_layout_envelope by blast
  note ol = optimize_layout_follows_optimize [of lapi d u_util u_waste elapsed_ms]
  have a1: "\<forall>env papi'. generate_pattern papi request rand_id elapsed_ms = Inr (env, papi')
         \<longrightarrow> success_envelope env"
    by (intro allI impI) (erule generate_pattern_envelope)
  have a2: "\<forall>env fapi'. api_simulate_draping fapi request rand_id elapsed_ms = Inr (env, fapi')
         \<longrightarrow> success_envelope env"
    by (intro allI impI) (erule simulate_draping_envelope)
  have a3: "\<forall>env. api_calculate_fit fapi request = Inr env \<longrightarrow> success_envelope env"
    by (intro allI impI) (erule calculate_fit_envelope)
  have a4: "\<forall>env lapi'. optimize_layout lapi request u_util u_waste elapsed_ms = Inr (env, lapi')
         \<longrightarrow> success_envelope env"
    by (intro allI impI) (erule optimize_layout_envelope)
  have a5: "\<forall>env. api_evaluate_layout lapi request u1 u2 u3 u4 = Inr env \<longrightarrow> success_envelope env"
    by (intro allI impI) (erule evaluate_layout_envelope)
  show ?thesis
    apply (intro conjI)
                 apply (rule gp)
                apply (rule constant_envelopes(1))
               apply (rule constant_envelopes(2))
              apply (rule sd)
             apply (rule cf)
            apply (rule constant_envelopes(3))
           apply (rule el)
          apply (rule constant_envelopes(4))
         apply (rule ol)
        apply (rule a1)
       apply (rule a2)
      apply (rule a3)
     apply (rule a4)
    apply (rule a5)
    done
qed

theorem mock_endpoints_success_envelope_witness:
  "\<exists>env lapi'.
     optimize_layout MockLayoutAPI_init
        (PDict [(''pattern'', PDict [(''pieces'', PList [PDict []])]),
                (''fabric'', PDict [(''width'', PInt 120)])]) 0 0 5
       = Inr (env, lapi')
   \<and> success_envelope env"
proof -
  let ?req = "PDict [(''pattern'', PDict [(''pieces'', PList [PDict []])]),
                     (''fabric'', PDict [(''width'', PInt 120)])]"
  have "\<exists>env lapi'. optimize_layout MockLayoutAPI_init ?req 0 0 5 = Inr (env, lapi')"
    by (simp add: optimize_layout_def optimize_def bindE_def py_get_def py_len_def py_iter_def
        py_truediv_def py_number_def truediv_def Let_def)
  then obtain env lapi' where ret: "optimize_layout MockLayoutAPI_init ?req 0 0 5 = Inr (env, lapi')"
    by blast
  have "\<forall>env lapi'. optimize_layout MockLayoutAPI_init ?req 0 0 5 = Inr (env, lapi')
          \<longrightarrow> success_envelope env"
    using mock_endpoints_success_envelope
      [of MockPatternAPI_init "[]" 0 5 PNone MockFabricAPI_init PNone MockLayoutAPI_init
          0 0 0 0 0 0 ?req]
    by - (elim conjE, assumption)
  with ret show ?thesis by blast
qed

section \<open>Metadata updates in place\<close>

text \<open>The common shape of the three functions: two assignments into the dictionary that
  the \<^verbatim>\<open>metadata\<close> entry refers to. The store changes at the address of that dictionary
  only, also when the argument is its own metadata.\<close>

lemma assign_two_metadata_entries:
  assumes "map_of (st p) ''metadata'' = Some (VRef m)" and "k1 \<noteq> ''metadata''"
  shows "bindE (getitem st (VRef p) ''metadata'') (\<lambda>md.
         bindE (setitem st md k1 v1) (\<lambda>st1.
         bindE (getitem st1 (VRef p) ''metadata'') (\<lambda>md1.
         bindE (setitem st1 md1 k2 v2) (\<lambda>st2.
           Inr (st2, VRef p)))))
       = Inr (st(m := AList.update k2 v2 (AList.update k1 v1 (st m))), VRef p)"
proof -
  let ?st1 = "st(m := AList.update k1 v1 (st m))"
  have g0: "getitem st (VRef p) ''metadata'' = Inr (VRef m)"
    using assms(1) by (simp add: getitem_def)
  have s0: "setitem st (VRef m) k1 v1 = Inr ?st1"
    by (simp add: setitem_def)
  have "map_of (?st1 p) ''metadata'' = Some (VRef m)"
    using assms by (auto simp: update_conv')
  then have g1: "getitem ?st1 (VRef p) ''metadata'' = Inr (VRef m)"
    by (simp add: getitem_def)
  have s1: "setitem ?st1 (VRef m) k2 v2
      = Inr (st(m := AList.update k2 v2 (AList.update k1 v1 (st m))))"
    by (simp add: setitem_def)
  show ?thesis
    by (simp only: g0 s0 g1 s1 bindE_def sum.case)
qed

lemma map_of_two_updates:
  "map_of (AList.update k2 v2 (AList.update k1 v1 al)) k
     = (if k = k2 then Some v2 else if k = k1 then Some v1 else map_of al k)"
  by (simp add: update_conv')

text \<open>An entry that refers to the metadata dictionary itself still refers to it after the
  call, and so shows the two new entries.\<close>

lemma entry_sharing_the_metadata_object:
  "\<exists>st'. optimize_seams
            ((\<lambda>_. [])(0 := [(''metadata'', VRef 1), (''extra'', VRef 1)], 1 := []))
            (VRef 0) VNone = Inr (st', VRef 0)
       \<and> map_of (st' 0) ''extra'' = Some (VRef 1)
       \<and> st' 1 = [(''seam_optimized'', VBool True),
                   (''note'', VStr ''DEMO - No real optimization performed'')]"
  by (simp add: optimize_seams_def bindE_def getitem_def setitem_def)

text \<open>
  Claim C10. For a pattern dictionary with a \<^verbatim>\<open>metadata\<close> dictionary, \<^verbatim>\<open>optimize_seams\<close> and
  \<^verbatim>\<open>add_seam_allowance\<close> return the very dictionary they were given; the store changes only
  at the metadata dictionary, where the two assigned entries are set and every other entry
  is kept; every entry of the pattern other than the assigned keys is as it was, and every
  other dictionary in the store (the pieces, their contours) is untouched. Likewise
  \<^verbatim>\<open>simulate_collision\<close> returns its mesh with only the metadata dictionary changed and
  \<^verbatim>\<open>vertices\<close>, \<^verbatim>\<open>faces\<close> and \<^verbatim>\<open>normals\<close> as they were.
\<close>

theorem metadata_only_updates:
  assumes "map_of (st p) ''metadata'' = Some (VRef m)"
    and "map_of (st f) ''metadata'' = Some (VRef fm)"
  shows "(\<exists>st'. optimize_seams st (VRef p) fabric = Inr (st', VRef p)
            \<and> (\<forall>q. q \<noteq> m \<longrightarrow> st' q = st q)
            \<and> (\<forall>k. k \<noteq> ''seam_optimized'' \<and> k \<noteq> ''note''
                   \<longrightarrow> map_of (st' m) k = map_of (st m) k \<and> map_of (st' p) k = map_of (st p) k)
            \<and> map_of (st' m) ''seam_optimized'' = Some (VBool True)
            \<and> map_of (st' m) ''note'' = Some (VStr ''DEMO - No real optimization performed''))
       \<and> (\<exists>st'. add_seam_allowance st (VRef p) allowance = Inr (st', VRef p)
            \<and> (\<forall>q. q \<noteq> m \<longrightarrow> st' q = st q)
            \<and> (\<forall>k. k \<noteq> ''seam_allowance'' \<and> k \<noteq> ''note''
                   \<longrightarrow> map_of (st' m) k = map_of (st m) k \<and> map_of (st' p) k = map_of (st p) k)
            \<and> map_of (st' m) ''seam_allowance'' = Some allowance
            \<and> map_of (st' m) ''note'' = Some (VStr ''DEMO - No real seam allowance added''))
       \<and> (\<exists>st'. simulate_collision st (VRef f) body_mesh fabric = Inr (st', VRef f)
            \<and> (\<forall>q. q \<noteq> fm \<longrightarrow> st' q = st q)
            \<and> (\<forall>k. k \<noteq> ''collision_resolved'' \<and> k \<noteq> ''note''
                   \<longrightarrow> map_of (st' fm) k = map_of (st fm) k \<and> map_of (st' f) k = map_of (st f) k)
            \<and> map_of (st' f) ''vertices'' = map_of (st f) ''vertices''
            \<and> map_of (st' f) ''faces'' = map_of (st f) ''faces''
            \<and> map_of (st' f) ''normals'' = map_of (st f) ''normals''
            \<and> map_of (st' fm) ''collision_resolved'' = Some (VBool True)
            \<and> map_of (st' fm) ''note'' = Some (VStr ''DEMO - No real collision detection''))"
proof (intro conjI)
  show "\<exists>st'. optimize_seams st (VRef p) fabric = Inr (st', VRef p)
            \<and> (\<forall>q. q \<noteq> m \<longrightarrow> st' q = st q)
            \<and> (\<forall>k. k \<noteq> ''seam_optimized'' \<and> k \<noteq> ''note''
                   \<longrightarrow> map_of (st' m) k = map_of (st m) k \<and> map_of (st' p) k = map_of (st p) k)
            \<and> map_of (st' m) ''seam_optimized'' = Some (VBool True)
            \<and> map_of (st' m) ''note'' = Some (VStr ''DEMO - No real optimization performed'')"
    unfolding optimize_seams_def
    by (subst assign_two_metadata_entries [of st p m, OF assms(1)])
       (simp_all add: map_of_two_updates)
  show "\<exists>st'. add_seam_allowance st (VRef p) allowance = Inr (st', VRef p)
            \<and> (\<forall>q. q \<noteq> m \<longrightarrow> st' q = st q)
            \<and> (\<forall>k. k \<noteq> ''seam_allowance'' \<and> k \<noteq> ''note''
                   \<longrightarrow> map_of (st' m) k = map_of (st m) k \<and> map_of (st' p) k = map_of (st p) k)
            \<and> map_of (st' m) ''seam_allowance'' = Some allowance
            \<and> map_of (st' m) ''note'' = Some (VStr ''DEMO - No real seam allowance added'')"
    unfolding add_seam_allowance_def
    by (subst assign_two_metadata_entries [of st p m, OF assms(1)])
       (simp_all add: map_of_two_updates)
  show "\<exists>st'. simulate_collision st (VRef f) body_mesh fabric = Inr (st', VRef f)
            \<and> (\<forall>q. q \<noteq> fm \<longrightarrow> st' q = st q)
            \<and> (\<forall>k. k \<noteq> ''collision_resolved'' \<and> k \<noteq> ''note''
                   \<longrightarrow> map_of (st' fm) k = map_of (st fm) k \<and> map_of (st' f) k = map_of (st f) k)
            \<and> map_of (st' f) ''vertices'' = map_of (st f) ''vertices''
            \<and> map_of (st' f) ''faces'' = map_of (st f) ''faces''
            \<and> map_of (st' f) ''normals'' = map_of (st f) ''normals''
            \<and> map_of (st' fm) ''collision_resolved'' = Some (VBool True)
            \<and> map_of (st' fm) ''note'' = Some (VStr ''DEMO - No real collision detection'')"
    unfolding simulate_collision_def
    by (subst assign_two_metadata_entries [of st f fm, OF assms(2)])
       (simp_all add: map_of_two_updates)
qed

theorem metadata_only_updates_witness:
  "\<exists>st'. optimize_seams demo_store (VRef 0) VNone = Inr (st', VRef 0)
       \<and> st' 0 = demo_store 0 \<and> st' 2 = demo_store 2
       \<and> map_of (st' 1) ''seam_optimized'' = Some (VBool True)
       \<and> map_of (st' 1) ''version'' = Some (VStr ''1.0.0-demo'')"
proof -
  have h1: "map_of (demo_store 0) ''metadata'' = Some (VRef 1)"
    and h2: "map_of (demo_store 3) ''metadata'' = Some (VRef 4)"
    by (simp_all add: demo_store_def)
  have "\<exists>st'. optimize_seams demo_store (VRef 0) VNone = Inr (st', VRef 0)
            \<and> (\<forall>q. q \<noteq> 1 \<longrightarrow> st' q = demo_store q)
            \<and> (\<forall>k. k \<noteq> ''seam_optimized'' \<and> k \<noteq> ''note''
                   \<longrightarrow> map_of (st' 1) k = map_of (demo_store 1) k
                     \<and> map_of (st' 0) k = map_of (demo_store 0) k)
            \<and> map_of (st' 1) ''seam_optimized'' = Some (VBool True)
            \<and> map_of (st' 1) ''note'' = Some (VStr ''DEMO - No real optimization performed'')"
    by (rule conjunct1 [OF metadata_only_updates [OF h1 h2, of VNone "VFloat 1" VNone]])
  then obtain st' where ret: "optimize_seams demo_store (VRef 0) VNone = Inr (st', VRef 0)"
    and frame: "\<forall>q. q \<noteq> 1 \<longrightarrow> st' q = demo_store q"
    and kept: "\<forall>k. k \<noteq> ''seam_optimized'' \<and> k \<noteq> ''note''
        \<longrightarrow> map_of (st' 1) k = map_of (demo_store 1) k
          \<and> map_of (st' 0) k = map_of (demo_store 0) k"
    and flag: "map_of (st' 1) ''seam_optimized'' = Some (VBool True)"
    by (elim exE conjE) (rule that)
  from frame have same: "st' 0 = demo_store 0" "st' 2 = demo_store 2"
    by simp_all
  from kept have "map_of (st' 1) ''version'' = map_of (demo_store 1) ''version''"
    by simp
  then have version: "map_of (st' 1) ''version'' = Some (VStr ''1.0.0-demo'')"
    by (simp add: demo_store_def)
  show ?thesis
    by (rule exI [of _ st']) (simp only: ret same flag version simp_thms)
qed


end
